theory Spec2Isabelle
  imports Main
begin

section \<open>JavaScript values\<close>

text \<open>
  The values held by the state container: whatever an import can put there, which is
  what \<^verbatim>\<open>JSON.parse\<close> can produce, and the built-in function that a property read on
  a string can give (\<open>JFun\<close>, named by its path).  Numbers are integers (JSON cannot
  carry NaN or an infinity; the state container never computes with a fraction).  An
  object is the list of its own enumerable properties, in property order, with distinct
  keys.  A string is the list of its UTF-16 code units, each in the range U+0000 to
  U+00FF.
\<close>

datatype jv =
    JUndefined
  | JNull
  | JBool bool
  | JNum int
  | JStr string
  | JFun string
  | JArr "jv list"
  | JObj "(string \<times> jv) list"

datatype js_error = TypeError

text \<open>Truthiness, as used by \<^verbatim>\<open>!x\<close>, \<^verbatim>\<open>x || y\<close>, \<^verbatim>\<open>if (x)\<close>.\<close>

fun truthy :: "jv \<Rightarrow> bool" where
  "truthy JUndefined = False"
| "truthy JNull = False"
| "truthy (JBool b) = b"
| "truthy (JNum n) = (n \<noteq> 0)"
| "truthy (JStr s) = (s \<noteq> [])"
| "truthy (JFun _) = True"
| "truthy (JArr _) = True"
| "truthy (JObj _) = True"

text \<open>\<^verbatim>\<open>a || b\<close>\<close>

definition js_or :: "jv \<Rightarrow> jv \<Rightarrow> jv" where
  "js_or a b = (if truthy a then a else b)"

text \<open>
  \<^verbatim>\<open>a === b\<close> for two values that come from different places (a snapshot and a
  command argument): primitives compare by value, a built-in function is equal to
  itself, arrays and objects compare by reference, and two distinct references are
  never equal.
\<close>

fun strict_eq :: "jv \<Rightarrow> jv \<Rightarrow> bool" where
  "strict_eq JUndefined JUndefined = True"
| "strict_eq JNull JNull = True"
| "strict_eq (JBool a) (JBool b) = (a = b)"
| "strict_eq (JNum a) (JNum b) = (a = b)"
| "strict_eq (JStr a) (JStr b) = (a = b)"
| "strict_eq (JFun a) (JFun b) = (a = b)"
| "strict_eq _ _ = False"

definition digit_chars :: "char list" where
  "digit_chars = ''0123456789''"

function digits_of :: "int \<Rightarrow> string" where
  "digits_of n =
     (if n < 10 then [digit_chars ! nat n]
      else digits_of (n div 10) @ [digit_chars ! nat (n mod 10)])"
  by pat_completeness auto
termination
  by (relation "measure nat") auto

declare digits_of.simps [simp del]

text \<open>The decimal digits of an integer, with a minus sign when it is negative.\<close>

definition show_int :: "int \<Rightarrow> string" where
  "show_int i = (if i < 0 then CHR ''-'' # digits_of (- i) else digits_of i)"

section \<open>String primitives\<close>

text \<open>The white space and line terminators that \<^verbatim>\<open>trim\<close> and \<^verbatim>\<open>parseInt\<close> skip, among
  the code units up to U+00FF: tab, line feed, vertical tab, form feed, carriage return,
  space and the no-break space U+00A0.\<close>

definition is_space :: "char \<Rightarrow> bool" where
  "is_space c =
     (c \<in> set [CHR '' '', CHR 0x09, CHR 0x0A, CHR 0x0B, CHR 0x0C, CHR 0x0D, CHR 0xA0])"

text \<open>\<^verbatim>\<open>s.trim() === ''\<close>\<close>

definition trim_is_empty :: "string \<Rightarrow> bool" where
  "trim_is_empty s = list_all is_space s"

definition is_digit :: "char \<Rightarrow> bool" where
  "is_digit c = (c \<in> set digit_chars)"

definition lower_chars :: "char list" where
  "lower_chars = ''abcdefghijklmnopqrstuvwxyz''"

definition upper_chars :: "char list" where
  "upper_chars = ''ABCDEFGHIJKLMNOPQRSTUVWXYZ''"

definition is_lower :: "char \<Rightarrow> bool" where
  "is_lower c = (c \<in> set lower_chars)"

definition is_upper :: "char \<Rightarrow> bool" where
  "is_upper c = (c \<in> set upper_chars)"

definition is_alpha :: "char \<Rightarrow> bool" where
  "is_alpha c = (is_lower c \<or> is_upper c)"

definition is_alnum :: "char \<Rightarrow> bool" where
  "is_alnum c = (is_alpha c \<or> is_digit c)"

text \<open>
  \<^verbatim>\<open>s.toUpperCase()\<close>, code unit by code unit.  The result can leave the range up to
  U+00FF (the micro sign U+00B5 becomes U+039C, the y with diaeresis U+00FF becomes
  U+0178): \<open>None\<close> is a code unit above U+00FF.  The sharp s U+00DF becomes the two letters \<open>SS\<close>; the letters
  U+00E0 to U+00FE (the division sign U+00F7 apart) become the letters 32 below them.
\<close>

definition upper_unit :: "char \<Rightarrow> char option list" where
  "upper_unit c =
     (case map_of (zip lower_chars upper_chars) c of
        Some u \<Rightarrow> [Some u]
      | None \<Rightarrow>
          if c = CHR 0xDF then [Some CHR ''S'', Some CHR ''S'']
          else if c = CHR 0xB5 \<or> c = CHR 0xFF then [None]
          else if 0xE0 \<le> (of_char c :: nat) \<and> (of_char c :: nat) \<le> 0xFE \<and> c \<noteq> CHR 0xF7
          then [Some (char_of ((of_char c :: nat) - 0x20))]
          else [Some c])"

definition toUpperCase :: "string \<Rightarrow> char option list" where
  "toUpperCase s = concat (map upper_unit s)"

fun startsWith :: "string \<Rightarrow> string \<Rightarrow> bool" where
  "startsWith s [] = True"
| "startsWith [] (p # ps) = False"
| "startsWith (c # cs) (p # ps) = (c = p \<and> startsWith cs ps)"

text \<open>\<^verbatim>\<open>s.includes(p)\<close> (the name \<open>includes\<close> is reserved in Isabelle).\<close>

fun js_includes :: "string \<Rightarrow> string \<Rightarrow> bool" where
  "js_includes [] p = (p = [])"
| "js_includes (c # cs) p = (startsWith (c # cs) p \<or> js_includes cs p)"

definition endsWith :: "string \<Rightarrow> string \<Rightarrow> bool" where
  "endsWith s p = startsWith (rev s) (rev p)"

fun join_comma :: "string list \<Rightarrow> string" where
  "join_comma [] = []"
| "join_comma [s] = s"
| "join_comma (s # t # ss) = s @ '','' @ join_comma (t # ss)"

text \<open>
  The replacement text of \<^verbatim>\<open>template.replace(placeholder, r)\<close> for a string
  placeholder: in \<open>r\<close>, \<^verbatim>\<open>$$\<close> stands for a dollar sign, \<^verbatim>\<open>$&\<close> for the matched
  placeholder, \<^verbatim>\<open>$`\<close> for the text before it and \<^verbatim>\<open>$'\<close> for the text after it; with
  no capture group every other \<^verbatim>\<open>$\<close> stands for itself.
\<close>

fun substitution :: "string \<Rightarrow> string \<Rightarrow> string \<Rightarrow> string \<Rightarrow> string" where
  "substitution m b a [] = []"
| "substitution m b a [c] = [c]"
| "substitution m b a (c # d # r) =
     (if c = CHR ''$'' \<and> d = CHR ''$'' then CHR ''$'' # substitution m b a r
      else if c = CHR ''$'' \<and> d = CHR ''&'' then m @ substitution m b a r
      else if c = CHR ''$'' \<and> d = CHR 0x60 then b @ substitution m b a r
      else if c = CHR ''$'' \<and> d = CHR 0x27 then a @ substitution m b a r
      else c # substitution m b a (d # r))"

section \<open>Form values and documents\<close>

text \<open>A parsed JSON document; an object is the list of its own properties with distinct
  keys, in property order.\<close>

datatype json =
    NNull
  | NBool bool
  | NNum int
  | NStr string
  | NArr "json list"
  | NObj "(string \<times> json) list"

text \<open>
  The validator works on primitives (rule settings, descriptor entries) and on form
  values.  A form value is a primitive, an array of form values, or a plain object that
  holds data: the list of its own enumerable properties, with distinct keys, none of
  them a function, and \<^verbatim>\<open>Object.prototype\<close> as its prototype.  An array and an object
  carry the reference that \<^verbatim>\<open>===\<close> compares.  Reading a key of the value mapping can
  also give what a plain object inherits from \<^verbatim>\<open>Object.prototype\<close>: a built-in function
  (\<open>Fun\<close>, named by its path) or, for the key \<^verbatim>\<open>__proto__\<close>, the object
  \<^verbatim>\<open>Object.prototype\<close> itself.  Numbers are integers.
\<close>

datatype prim = PUndefined | PNull | PBool bool | PNum int | PStr string

type_synonym ref = nat

datatype fv =
    Prim prim
  | Arr ref "fv list"
  | Obj ref "(string \<times> json) list"
  | Fun string
  | ObjectPrototype

text \<open>
  What the JavaScript engine supplies and this repository does not define:
  \<^item> \<open>parseFloat_lt a b\<close>: whether \<^verbatim>\<open>parseFloat(a) < parseFloat(b)\<close> for two strings
    (false when either is NaN); \<^verbatim>\<open>parseFloat\<close> takes the string form of its argument;
  \<^item> \<open>url_test\<close>: the match of the url pattern
    \<^verbatim>\<open>/^(https?:\/\/)?([\da-z.-]+)\.([a-z.]{2,6})([/\w .-]*)*\/?$/\<close>;
  \<^item> \<open>regexp_test p s\<close>: \<^verbatim>\<open>new RegExp(p).test(s)\<close> for a user-supplied pattern \<open>p\<close>, \<open>None\<close>
    when the constructor throws;
  \<^item> \<open>json_parse\<close>: \<^verbatim>\<open>JSON.parse\<close>, \<open>None\<close> when it throws;
  \<^item> \<open>id_suffix n\<close>: the part of the n-th id generated within one command that comes
    from the clock and the random source;
  \<^item> \<open>large_number_string n\<close>: \<^verbatim>\<open>String(n)\<close> for an integer above \<open>2^53 - 1\<close> in
    magnitude, where only some integers are numbers and their digits are rounded or
    printed with an exponent;
  \<^item> \<open>native_source f\<close>: \<^verbatim>\<open>String(f)\<close> for the built-in function \<open>f\<close>;
  \<^item> \<open>object_prototype k\<close>: the member \<open>k\<close> of \<^verbatim>\<open>Object.prototype\<close>, \<open>None\<close> when there
    is none;
  \<^item> \<open>map_arraylike d\<close>: what \<^verbatim>\<open>Helpers.deepClone\<close> gives for the first clone of the
    parsed object \<open>d\<close> when an array is among the prototypes that clone has received (the
    engine's \<^verbatim>\<open>Array.prototype.map\<close> then runs on an object that is no array).
\<close>

record platform =
  parseFloat_lt :: "string \<Rightarrow> string \<Rightarrow> bool"
  url_test :: "string \<Rightarrow> bool"
  regexp_test :: "prim \<Rightarrow> string \<Rightarrow> bool option"
  json_parse :: "string \<Rightarrow> json option"
  id_suffix :: "nat \<Rightarrow> string"
  large_number_string :: "int \<Rightarrow> string"
  native_source :: "string \<Rightarrow> string"
  object_prototype :: "string \<Rightarrow> fv option"
  map_arraylike :: "json \<Rightarrow> js_error + jv"

fun truthy_prim :: "prim \<Rightarrow> bool" where
  "truthy_prim PUndefined = False"
| "truthy_prim PNull = False"
| "truthy_prim (PBool b) = b"
| "truthy_prim (PNum n) = (n \<noteq> 0)"
| "truthy_prim (PStr s) = (s \<noteq> [])"

fun truthy_fv :: "fv \<Rightarrow> bool" where
  "truthy_fv (Prim p) = truthy_prim p"
| "truthy_fv _ = True"

text \<open>\<^verbatim>\<open>a || b\<close> on primitives and on form values.\<close>

definition prim_or :: "prim \<Rightarrow> prim \<Rightarrow> prim" where
  "prim_or a b = (if truthy_prim a then a else b)"

definition fv_or :: "fv \<Rightarrow> fv \<Rightarrow> fv" where
  "fv_or a b = (if truthy_fv a then a else b)"

text \<open>
  \<^verbatim>\<open>a === b\<close>: primitives compare by value, arrays and objects by reference, a built-in
  function and \<^verbatim>\<open>Object.prototype\<close> are equal to themselves.
\<close>

fun strict_eq_fv :: "fv \<Rightarrow> fv \<Rightarrow> bool" where
  "strict_eq_fv (Prim a) (Prim b) = (a = b)"
| "strict_eq_fv (Arr r xs) (Arr r' ys) = (r = r')"
| "strict_eq_fv (Obj r kvs) (Obj r' kvs') = (r = r')"
| "strict_eq_fv (Fun a) (Fun b) = (a = b)"
| "strict_eq_fv ObjectPrototype ObjectPrototype = True"
| "strict_eq_fv _ _ = False"

text \<open>The string form of a number: an integer up to \<open>2^53 - 1\<close> in magnitude is printed
  in full.\<close>

definition number_string :: "platform \<Rightarrow> int \<Rightarrow> string" where
  "number_string P n =
     (if \<bar>n\<bar> \<le> 9007199254740991 then show_int n else large_number_string P n)"

fun prim_string :: "platform \<Rightarrow> prim \<Rightarrow> string" where
  "prim_string P PUndefined = ''undefined''"
| "prim_string P PNull = ''null''"
| "prim_string P (PBool b) = (if b then ''true'' else ''false'')"
| "prim_string P (PNum n) = number_string P n"
| "prim_string P (PStr s) = s"

text \<open>
  \<^verbatim>\<open>String(x)\<close>, and the conversion to a string that \<^verbatim>\<open>RegExp.prototype.test\<close>,
  \<^verbatim>\<open>parseFloat\<close> and the string methods apply to an argument.  An array joins the string
  forms of its elements with commas, null and undefined elements as the empty string.
  A plain object is \<^verbatim>\<open>[object Object]\<close> by the inherited \<^verbatim>\<open>toString\<close>; when it has an own
  property \<^verbatim>\<open>toString\<close>, which is no function, the conversion goes on to \<^verbatim>\<open>valueOf\<close>,
  which is no function either or gives the object back, and throws a TypeError.
\<close>

fun js_string :: "platform \<Rightarrow> fv \<Rightarrow> js_error + string"
  and js_elems :: "platform \<Rightarrow> fv list \<Rightarrow> js_error + string list" where
  "js_string P (Prim p) = Inr (prim_string P p)"
| "js_string P (Arr r xs) =
     (case js_elems P xs of Inl e \<Rightarrow> Inl e | Inr ss \<Rightarrow> Inr (join_comma ss))"
| "js_string P (Obj r kvs) =
     (if map_of kvs ''toString'' = None then Inr ''[object Object]'' else Inl TypeError)"
| "js_string P (Fun f) = Inr (native_source P f)"
| "js_string P ObjectPrototype = Inr ''[object Object]''"
| "js_elems P [] = Inr []"
| "js_elems P (x # xs) =
     (case (if x = Prim PUndefined \<or> x = Prim PNull then Inr [] else js_string P x) of
        Inl e \<Rightarrow> Inl e
      | Inr s \<Rightarrow> (case js_elems P xs of Inl e \<Rightarrow> Inl e | Inr ss \<Rightarrow> Inr (s # ss)))"

text \<open>A test of the string forms of two values, converted from left to right.\<close>

definition on_strings ::
  "platform \<Rightarrow> fv \<Rightarrow> fv \<Rightarrow> (string \<Rightarrow> string \<Rightarrow> bool) \<Rightarrow> js_error + bool" where
  "on_strings P a b f =
     (case js_string P a of
        Inl e \<Rightarrow> Inl e
      | Inr s \<Rightarrow> (case js_string P b of Inl e \<Rightarrow> Inl e | Inr t \<Rightarrow> Inr (f s t)))"

text \<open>
  A form-value mapping \<^verbatim>\<open>values\<close> is a plain object: \<^verbatim>\<open>values[k]\<close> is its own property
  \<open>k\<close> when it has one, else the member \<open>k\<close> of \<^verbatim>\<open>Object.prototype\<close> when there is one,
  else undefined.
\<close>

type_synonym jvalues = "string \<rightharpoonup> fv"

definition lookup :: "platform \<Rightarrow> jvalues \<Rightarrow> string \<Rightarrow> fv" where
  "lookup P values k =
     (case values k of
        Some v \<Rightarrow> v
      | None \<Rightarrow> (case object_prototype P k of Some v \<Rightarrow> v | None \<Rightarrow> Prim PUndefined))"

text \<open>The members of \<^verbatim>\<open>Object.prototype\<close> that the language defines.\<close>

definition standard_object_prototype :: "string \<Rightarrow> fv option" where
  "standard_object_prototype =
     map_of
       [(''constructor'', Fun ''Object''),
        (''__defineGetter__'', Fun ''Object.prototype.__defineGetter__''),
        (''__defineSetter__'', Fun ''Object.prototype.__defineSetter__''),
        (''hasOwnProperty'', Fun ''Object.prototype.hasOwnProperty''),
        (''__lookupGetter__'', Fun ''Object.prototype.__lookupGetter__''),
        (''__lookupSetter__'', Fun ''Object.prototype.__lookupSetter__''),
        (''isPrototypeOf'', Fun ''Object.prototype.isPrototypeOf''),
        (''propertyIsEnumerable'', Fun ''Object.prototype.propertyIsEnumerable''),
        (''toString'', Fun ''Object.prototype.toString''),
        (''valueOf'', Fun ''Object.prototype.valueOf''),
        (''__proto__'', ObjectPrototype),
        (''toLocaleString'', Fun ''Object.prototype.toLocaleString'')]"

section \<open>Validation: patterns and messages\<close>

text \<open>
  A pattern of the form \<^verbatim>\<open>/^C1 C2 ... Cn$/\<close>, every \<open>Ci\<close> one character class:
  the subject has exactly \<open>n\<close> code units and the i-th is in the i-th class.
\<close>

definition match_classes :: "('a \<Rightarrow> bool) list \<Rightarrow> 'a list \<Rightarrow> bool" where
  "match_classes cls s = (length s = length cls \<and> list_all2 (\<lambda>p c. p c) cls s)"

text \<open>A class of code units up to U+00FF, on the code units of an upper-cased string.\<close>

definition on_unit :: "(char \<Rightarrow> bool) \<Rightarrow> char option \<Rightarrow> bool" where
  "on_unit cls u = (case u of None \<Rightarrow> False | Some c \<Rightarrow> cls c)"

text \<open>\<^verbatim>\<open>mobile: /^[0-9]{10}$/\<close>\<close>

definition pattern_mobile :: "string \<Rightarrow> bool" where
  "pattern_mobile s = match_classes (replicate 10 is_digit) s"

text \<open>\<^verbatim>\<open>email: /^[a-zA-Z0-9._%+-]+@[a-zA-Z0-9.-]+\.[a-zA-Z]{2,}$/\<close>.  Neither the
  local part's class nor the domain's contains \<open>@\<close>, and the last group contains no dot:
  the subject splits at its only \<open>@\<close> and at the last dot after it.\<close>

definition email_local_char :: "char \<Rightarrow> bool" where
  "email_local_char c = (is_alnum c \<or> c \<in> set ''._%+-'')"

definition email_domain_char :: "char \<Rightarrow> bool" where
  "email_domain_char c = (is_alnum c \<or> c \<in> set ''.-'')"

definition pattern_email :: "string \<Rightarrow> bool" where
  "pattern_email s =
     (let loc = takeWhile (\<lambda>c. c \<noteq> CHR ''@'') s;
          rest = drop (Suc (length loc)) s;
          tld = rev (takeWhile (\<lambda>c. c \<noteq> CHR ''.'') (rev rest));
          dom = take (length rest - Suc (length tld)) rest
      in length loc < length s \<and> loc \<noteq> [] \<and> list_all email_local_char loc
         \<and> length tld < length rest \<and> 2 \<le> length tld \<and> list_all is_alpha tld
         \<and> dom \<noteq> [] \<and> list_all email_domain_char dom)"

text \<open>\<^verbatim>\<open>alphanumeric: /^[a-zA-Z0-9]+$/\<close>, \<^verbatim>\<open>alpha: /^[a-zA-Z]+$/\<close>,
  \<^verbatim>\<open>numeric: /^[0-9]+$/\<close>\<close>

definition pattern_alphanumeric :: "string \<Rightarrow> bool" where
  "pattern_alphanumeric s = (s \<noteq> [] \<and> list_all is_alnum s)"

definition pattern_alpha :: "string \<Rightarrow> bool" where
  "pattern_alpha s = (s \<noteq> [] \<and> list_all is_alpha s)"

definition pattern_numeric :: "string \<Rightarrow> bool" where
  "pattern_numeric s = (s \<noteq> [] \<and> list_all is_digit s)"

text \<open>\<^verbatim>\<open>gst: /^[0-9]{2}[A-Z]{5}[0-9]{4}[A-Z]{1}[1-9A-Z]{1}Z[0-9A-Z]{1}$/\<close>, tested on an
  upper-cased string.\<close>

definition pattern_gst :: "char option list \<Rightarrow> bool" where
  "pattern_gst s =
     match_classes
       (map on_unit
         (replicate 2 is_digit @ replicate 5 is_upper @ replicate 4 is_digit @ [is_upper]
          @ [\<lambda>c. (is_digit c \<and> c \<noteq> CHR ''0'') \<or> is_upper c]
          @ [\<lambda>c. c = CHR ''Z''] @ [\<lambda>c. is_digit c \<or> is_upper c])) s"

text \<open>\<^verbatim>\<open>pan: /^[A-Z]{5}[0-9]{4}[A-Z]{1}$/\<close>, tested on an upper-cased string.\<close>

definition pattern_pan :: "char option list \<Rightarrow> bool" where
  "pattern_pan s =
     match_classes
       (map on_unit (replicate 5 is_upper @ replicate 4 is_digit @ [is_upper])) s"

text \<open>\<^verbatim>\<open>pincode: /^[1-9][0-9]{5}$/\<close>\<close>

definition pattern_pincode :: "string \<Rightarrow> bool" where
  "pattern_pincode s =
     match_classes ((\<lambda>c. is_digit c \<and> c \<noteq> CHR ''0'') # replicate 5 is_digit) s"

definition msg_required :: string where "msg_required = ''This field is required''"
definition msg_email :: string where "msg_email = ''Please enter a valid email address''"
definition msg_mobile :: string where
  "msg_mobile = ''Please enter a valid 10-digit mobile number''"
definition msg_url :: string where "msg_url = ''Please enter a valid URL''"
definition msg_pattern :: string where "msg_pattern = ''Please enter a valid format''"
definition msg_alphanumeric :: string where
  "msg_alphanumeric = ''Only letters and numbers are allowed''"
definition msg_alpha :: string where "msg_alpha = ''Only letters are allowed''"
definition msg_numeric :: string where "msg_numeric = ''Only numbers are allowed''"
definition msg_gst :: string where "msg_gst = ''Please enter a valid GST number''"
definition msg_pan :: string where "msg_pan = ''Please enter a valid PAN number''"
definition msg_pincode :: string where
  "msg_pincode = ''Please enter a valid 6-digit PIN code''"

text \<open>The template \<^verbatim>\<open>pre + placeholder + post\<close> with the placeholder replaced by the
  string form of the primitive \<open>x\<close>, as \<^verbatim>\<open>String.prototype.replace\<close> does it.\<close>

definition fill :: "platform \<Rightarrow> string \<Rightarrow> string \<Rightarrow> string \<Rightarrow> prim \<Rightarrow> string" where
  "fill P pre placeholder post x =
     pre @ substitution placeholder pre post (prim_string P x) @ post"

text \<open>\<^verbatim>\<open>this.messages.minLength.replace('{min}', x)\<close> and its three siblings.\<close>

definition msg_minLength :: "platform \<Rightarrow> prim \<Rightarrow> string" where
  "msg_minLength P x = fill P ''Minimum '' ''{min}'' '' characters required'' x"
definition msg_maxLength :: "platform \<Rightarrow> prim \<Rightarrow> string" where
  "msg_maxLength P x = fill P ''Maximum '' ''{max}'' '' characters allowed'' x"
definition msg_min :: "platform \<Rightarrow> prim \<Rightarrow> string" where
  "msg_min P x = fill P ''Value must be at least '' ''{min}'' [] x"
definition msg_max :: "platform \<Rightarrow> prim \<Rightarrow> string" where
  "msg_max P x = fill P ''Value must not exceed '' ''{max}'' [] x"

section \<open>Validation: the condition evaluator and the field validator\<close>

text \<open>\<^verbatim>\<open>Validation.isEmpty\<close>.  \<^verbatim>\<open>Object.keys\<close> lists the own enumerable properties, of
  which \<^verbatim>\<open>Object.prototype\<close> has none; a function is neither a string, nor an array, nor
  an object to \<^verbatim>\<open>typeof\<close>.\<close>

fun isEmpty :: "fv \<Rightarrow> bool" where
  "isEmpty (Prim PUndefined) = True"
| "isEmpty (Prim PNull) = True"
| "isEmpty (Prim (PStr s)) = trim_is_empty s"
| "isEmpty (Prim _) = False"
| "isEmpty (Arr r xs) = (xs = [])"
| "isEmpty (Obj r kvs) = (kvs = [])"
| "isEmpty (Fun _) = False"
| "isEmpty ObjectPrototype = True"

text \<open>
  A conditional-logic descriptor: the enabled flag, the reference to the trigger field,
  the operator and the comparison value.  An entry the object does not have is
  undefined; a descriptor that is itself absent, null or undefined is \<open>None\<close>.
\<close>

record descriptor =
  d_enabled :: prim
  d_field :: prim
  d_operator :: prim
  d_value :: fv

text \<open>\<^verbatim>\<open>Validation.evaluateCondition\<close>.  The key of \<^verbatim>\<open>values[field]\<close> is the string form
  of the trigger reference.  The string operators convert the looked-up value, then the
  comparison value; either conversion can throw.\<close>

definition evaluateCondition ::
  "platform \<Rightarrow> descriptor option \<Rightarrow> jvalues \<Rightarrow> js_error + bool" where
  "evaluateCondition P condition values =
     (case condition of
        None \<Rightarrow> Inr True
      | Some c \<Rightarrow>
          if \<not> truthy_prim (d_enabled c) then Inr True
          else if \<not> truthy_prim (d_field c) then Inr True
          else
            let fieldValue = lookup P values (prim_string P (d_field c));
                operator = d_operator c;
                v = d_value c
            in if operator = PStr ''equals'' then Inr (strict_eq_fv fieldValue v)
               else if operator = PStr ''not_equals'' then Inr (\<not> strict_eq_fv fieldValue v)
               else if operator = PStr ''contains''
                 then on_strings P (fv_or fieldValue (Prim (PStr []))) v js_includes
               else if operator = PStr ''not_contains''
                 then on_strings P (fv_or fieldValue (Prim (PStr []))) v
                        (\<lambda>s t. \<not> js_includes s t)
               else if operator = PStr ''not_empty'' then Inr (\<not> isEmpty fieldValue)
               else if operator = PStr ''empty'' then Inr (isEmpty fieldValue)
               else if operator = PStr ''greater_than''
                 then on_strings P fieldValue v (\<lambda>s t. parseFloat_lt P t s)
               else if operator = PStr ''less_than''
                 then on_strings P fieldValue v (parseFloat_lt P)
               else if operator = PStr ''starts_with''
                 then on_strings P (fv_or fieldValue (Prim (PStr []))) v startsWith
               else if operator = PStr ''ends_with''
                 then on_strings P (fv_or fieldValue (Prim (PStr []))) v endsWith
               else Inr True)"

text \<open>The operators the \<^verbatim>\<open>switch\<close> of \<^verbatim>\<open>evaluateCondition\<close> has a case for.\<close>

definition recognized_operators :: "string list" where
  "recognized_operators =
     [''equals'', ''not_equals'', ''contains'', ''not_contains'', ''not_empty'', ''empty'',
      ''greater_than'', ''less_than'', ''starts_with'', ''ends_with'']"

text \<open>\<^verbatim>\<open>parseInt(x)\<close> with no radix: leading white space, a sign, a \<open>0x\<close> prefix
  for base 16, then the longest run of digits; \<open>None\<close> is NaN.\<close>

definition digit_val :: "char \<Rightarrow> nat option" where
  "digit_val c =
     map_of (zip ''0123456789abcdefABCDEF''
               [0, 1, 2, 3, 4, 5, 6, 7, 8, 9, 10, 11, 12, 13, 14, 15, 10, 11, 12, 13, 14, 15]) c"

definition in_radix :: "nat \<Rightarrow> char \<Rightarrow> bool" where
  "in_radix r c = (case digit_val c of None \<Rightarrow> False | Some d \<Rightarrow> d < r)"

definition parse_digits :: "nat \<Rightarrow> string \<Rightarrow> int option" where
  "parse_digits r s =
     (let ds = takeWhile (in_radix r) s
      in if ds = [] then None
         else Some (foldl (\<lambda>acc c. acc * int r + int (the (digit_val c))) 0 ds))"

definition parseInt :: "platform \<Rightarrow> prim \<Rightarrow> int option" where
  "parseInt P x =
     (let s = dropWhile is_space (prim_string P x);
          neg = startsWith s ''-'';
          s1 = (if startsWith s ''-'' \<or> startsWith s ''+'' then tl s else s);
          m = (if startsWith s1 ''0x'' \<or> startsWith s1 ''0X''
               then parse_digits 16 (drop 2 s1) else parse_digits 10 s1)
      in map_option (\<lambda>n. if neg then - n else n) m)"

text \<open>\<^verbatim>\<open>x !== undefined && x !== null && x !== ''\<close>\<close>

definition is_set :: "prim \<Rightarrow> bool" where
  "is_set x = (x \<noteq> PUndefined \<and> x \<noteq> PNull \<and> x \<noteq> PStr [])"

text \<open>The rules object of \<^verbatim>\<open>validateField\<close>; a key it does not have is undefined.\<close>

record rules =
  r_type :: prim
  r_required :: prim
  r_minLength :: prim
  r_maxLength :: prim
  r_min :: prim
  r_max :: prim
  r_pattern :: prim
  r_errorMessage :: prim
  r_conditionalLogic :: "descriptor option"
  r_email :: prim
  r_mobile :: prim
  r_url :: prim
  r_gst :: prim
  r_pan :: prim
  r_pincode :: prim
  r_alphanumeric :: prim
  r_alpha :: prim
  r_numeric :: prim

record vresult =
  valid :: bool
  error :: prim

definition pass :: "js_error + vresult" where
  "pass = Inr \<lparr>valid = True, error = PNull\<rparr>"

definition fail :: "prim \<Rightarrow> js_error + vresult" where
  "fail e = Inr \<lparr>valid = False, error = e\<rparr>"

text \<open>
  One check of \<^verbatim>\<open>validateField\<close>: it throws, returns a failure, or lets the function go
  on (\<open>None\<close>).  \<open>checks cs rest\<close> runs the checks in order and ends with \<open>rest\<close>.
\<close>

type_synonym check = "js_error + vresult option"

definition carry_on :: check where
  "carry_on = Inr None"

definition reject :: "prim \<Rightarrow> check" where
  "reject e = Inr (Some \<lparr>valid = False, error = e\<rparr>)"

fun checks :: "check list \<Rightarrow> js_error + vresult \<Rightarrow> js_error + vresult" where
  "checks [] rest = rest"
| "checks (c # cs) rest =
     (case c of
        Inl x \<Rightarrow> Inl x
      | Inr (Some r) \<Rightarrow> Inr r
      | Inr None \<Rightarrow> checks cs rest)"

text \<open>A check \<^verbatim>\<open>if (active) { if (!ok(String(value))) return failure }\<close>, where the
  conversion of the value to a string is that of \<^verbatim>\<open>RegExp.prototype.test\<close>, \<^verbatim>\<open>String\<close> or
  \<^verbatim>\<open>parseFloat\<close>.\<close>

definition test_value ::
  "platform \<Rightarrow> bool \<Rightarrow> fv \<Rightarrow> (string \<Rightarrow> bool) \<Rightarrow> prim \<Rightarrow> check" where
  "test_value P active v ok e =
     (if \<not> active then carry_on
      else case js_string P v of
             Inl x \<Rightarrow> Inl x
           | Inr s \<Rightarrow> if ok s then carry_on else reject e)"

text \<open>A check that calls a string method on the value (\<^verbatim>\<open>value.replace\<close>,
  \<^verbatim>\<open>value.toUpperCase\<close>): on anything but a string the call throws a TypeError.\<close>

definition test_string :: "bool \<Rightarrow> fv \<Rightarrow> (string \<Rightarrow> bool) \<Rightarrow> prim \<Rightarrow> check" where
  "test_string active v ok e =
     (if \<not> active then carry_on
      else case v of
             Prim (PStr s) \<Rightarrow> if ok s then carry_on else reject e
           | _ \<Rightarrow> Inl TypeError)"

text \<open>The custom pattern check: the construction of the pattern and the test are inside
  a \<^verbatim>\<open>try\<close> whose \<^verbatim>\<open>catch\<close> only logs, so a throw of either lets the function go on.\<close>

definition test_pattern :: "platform \<Rightarrow> rules \<Rightarrow> fv \<Rightarrow> check" where
  "test_pattern P rules v =
     (if \<not> truthy_prim (r_pattern rules) then carry_on
      else case js_string P v of
             Inl x \<Rightarrow> carry_on
           | Inr s \<Rightarrow>
               if regexp_test P (r_pattern rules) s = Some False
               then reject (prim_or (r_errorMessage rules) (PStr msg_pattern))
               else carry_on)"

text \<open>
  \<^verbatim>\<open>Validation.validateField\<close>, in two parts.  The second part is the source from the
  min-length check to the end of the function.
\<close>

definition validateField_rules :: "platform \<Rightarrow> fv \<Rightarrow> rules \<Rightarrow> js_error + vresult" where
  "validateField_rules P v rules =
     checks
       [test_value P (is_set (r_minLength rules)) v
          (\<lambda>s. \<not> (case parseInt P (r_minLength rules) of None \<Rightarrow> False
                    | Some n \<Rightarrow> int (length s) < n))
          (PStr (msg_minLength P (r_minLength rules))),
        test_value P (is_set (r_maxLength rules)) v
          (\<lambda>s. \<not> (case parseInt P (r_maxLength rules) of None \<Rightarrow> False
                    | Some n \<Rightarrow> int (length s) > n))
          (PStr (msg_maxLength P (r_maxLength rules))),
        test_value P (is_set (r_min rules)) v
          (\<lambda>s. \<not> parseFloat_lt P s (prim_string P (r_min rules)))
          (PStr (msg_min P (r_min rules))),
        test_value P (is_set (r_max rules)) v
          (\<lambda>s. \<not> parseFloat_lt P (prim_string P (r_max rules)) s)
          (PStr (msg_max P (r_max rules))),
        test_pattern P rules v,
        test_string (truthy_prim (r_gst rules)) v (\<lambda>s. pattern_gst (toUpperCase s))
          (PStr msg_gst),
        test_string (truthy_prim (r_pan rules)) v (\<lambda>s. pattern_pan (toUpperCase s))
          (PStr msg_pan),
        test_value P (truthy_prim (r_pincode rules)) v pattern_pincode (PStr msg_pincode),
        test_value P (truthy_prim (r_alphanumeric rules)) v pattern_alphanumeric
          (PStr msg_alphanumeric),
        test_value P (truthy_prim (r_alpha rules)) v pattern_alpha (PStr msg_alpha),
        test_value P (truthy_prim (r_numeric rules)) v pattern_numeric (PStr msg_numeric)]
       pass"

definition validateField :: "platform \<Rightarrow> fv \<Rightarrow> rules \<Rightarrow> jvalues \<Rightarrow> js_error + vresult" where
  "validateField P v rules allValues =
     (case (if (case r_conditionalLogic rules of None \<Rightarrow> False
                | Some c \<Rightarrow> truthy_prim (d_enabled c))
            then evaluateCondition P (r_conditionalLogic rules) allValues
            else Inr True) of
        Inl x \<Rightarrow> Inl x
      | Inr isVisible \<Rightarrow>
          if \<not> isVisible then pass
          else if truthy_prim (r_required rules) \<and> isEmpty v
          then fail (prim_or (r_errorMessage rules) (PStr msg_required))
          else if isEmpty v then pass
          else
            checks
              [test_value P (r_type rules = PStr ''email'' \<or> truthy_prim (r_email rules)) v
                 pattern_email (PStr msg_email),
               test_string (r_type rules = PStr ''mobile'' \<or> truthy_prim (r_mobile rules)) v
                 (\<lambda>s. pattern_mobile (filter is_digit s)) (PStr msg_mobile),
               test_value P (r_type rules = PStr ''url'' \<or> truthy_prim (r_url rules)) v
                 (url_test P) (PStr msg_url)]
              (validateField_rules P v rules))"

section \<open>Validation: the form validator\<close>

text \<open>The \<^verbatim>\<open>validation\<close> object of a field configuration, with the keys the validator
  reads.  (\<^verbatim>\<open>validateForm\<close> spreads this object over the rules last; a \<^verbatim>\<open>validation\<close>
  object that itself carries a \<^verbatim>\<open>type\<close>, \<^verbatim>\<open>required\<close> or \<^verbatim>\<open>conditionalLogic\<close> key is
  outside this record.)\<close>

record rule_set =
  rs_minLength :: prim
  rs_maxLength :: prim
  rs_min :: prim
  rs_max :: prim
  rs_pattern :: prim
  rs_errorMessage :: prim
  rs_email :: prim
  rs_mobile :: prim
  rs_url :: prim
  rs_gst :: prim
  rs_pan :: prim
  rs_pincode :: prim
  rs_alphanumeric :: prim
  rs_alpha :: prim
  rs_numeric :: prim

definition no_rule_set :: rule_set where
  "no_rule_set =
     \<lparr>rs_minLength = PUndefined, rs_maxLength = PUndefined, rs_min = PUndefined,
      rs_max = PUndefined, rs_pattern = PUndefined, rs_errorMessage = PUndefined,
      rs_email = PUndefined, rs_mobile = PUndefined, rs_url = PUndefined, rs_gst = PUndefined,
      rs_pan = PUndefined, rs_pincode = PUndefined, rs_alphanumeric = PUndefined,
      rs_alpha = PUndefined, rs_numeric = PUndefined\<rparr>"

text \<open>A field configuration as \<^verbatim>\<open>validateForm\<close> reads it: the id (a string), the type,
  the required flag, the validation object and the conditional logic.\<close>

record field_config =
  fc_id :: string
  fc_type :: prim
  fc_required :: prim
  fc_validation :: "rule_set option"
  fc_conditionalLogic :: "descriptor option"

text \<open>The rules object that \<^verbatim>\<open>validateForm\<close> builds for a field;
  \<^verbatim>\<open>field.validation?.k\<close> and the spread of an absent \<^verbatim>\<open>validation\<close> give undefined.\<close>

definition rules_of :: "field_config \<Rightarrow> rules" where
  "rules_of f =
     (let vd = (case fc_validation f of None \<Rightarrow> no_rule_set | Some x \<Rightarrow> x)
      in \<lparr>r_type = fc_type f, r_required = fc_required f,
          r_minLength = rs_minLength vd, r_maxLength = rs_maxLength vd,
          r_min = rs_min vd, r_max = rs_max vd, r_pattern = rs_pattern vd,
          r_errorMessage = rs_errorMessage vd,
          r_conditionalLogic = fc_conditionalLogic f,
          r_email = rs_email vd, r_mobile = rs_mobile vd, r_url = rs_url vd,
          r_gst = rs_gst vd, r_pan = rs_pan vd, r_pincode = rs_pincode vd,
          r_alphanumeric = rs_alphanumeric vd, r_alpha = rs_alpha vd,
          r_numeric = rs_numeric vd\<rparr>)"

record fresult =
  form_valid :: bool
  errors :: "string \<rightharpoonup> prim"

text \<open>\<^verbatim>\<open>errors[k] = e\<close> on the plain object \<^verbatim>\<open>errors\<close>, for a primitive \<open>e\<close>: the key
  \<^verbatim>\<open>__proto__\<close> is the inherited accessor, whose setter ignores a primitive and adds no
  property; every other key becomes an own property.\<close>

definition set_error :: "(string \<rightharpoonup> prim) \<Rightarrow> string \<Rightarrow> prim \<Rightarrow> (string \<rightharpoonup> prim)" where
  "set_error es k e = (if k = ''__proto__'' then es else es(k \<mapsto> e))"

text \<open>The loop of \<^verbatim>\<open>validateForm\<close>; an exception of \<^verbatim>\<open>validateField\<close> leaves it.\<close>

fun validateForm_loop ::
  "platform \<Rightarrow> jvalues \<Rightarrow> field_config list \<Rightarrow> fresult \<Rightarrow> js_error + fresult" where
  "validateForm_loop P values [] acc = Inr acc"
| "validateForm_loop P values (f # fs) acc =
     (case validateField P (lookup P values (fc_id f)) (rules_of f) values of
        Inl e \<Rightarrow> Inl e
      | Inr res \<Rightarrow>
          validateForm_loop P values fs
            (if \<not> valid res
             then \<lparr>form_valid = False, errors = set_error (errors acc) (fc_id f) (error res)\<rparr>
             else acc))"

definition validateForm ::
  "platform \<Rightarrow> jvalues \<Rightarrow> field_config list \<Rightarrow> js_error + fresult" where
  "validateForm P values fs =
     validateForm_loop P values fs \<lparr>form_valid = True, errors = Map.empty\<rparr>"

text \<open>The configuration of the field that \<^verbatim>\<open>AppState.addField('mobile')\<close> builds from
  \<^verbatim>\<open>getFieldDefaults('mobile')\<close>, with the generated id \<open>i\<close>.\<close>

definition mobile_field_config :: "string \<Rightarrow> field_config" where
  "mobile_field_config i =
     \<lparr>fc_id = i, fc_type = PStr ''mobile'', fc_required = PBool False,
      fc_validation = Some (no_rule_set\<lparr>rs_mobile := PBool True, rs_maxLength := PNum 10\<rparr>),
      fc_conditionalLogic =
        Some \<lparr>d_enabled = PBool False, d_field = PUndefined, d_operator = PUndefined,
              d_value = Prim PUndefined\<rparr>\<rparr>"

section \<open>The state container\<close>

text \<open>
  A field as the state holds it.  The validation object is kept by the keys the builder
  and the import write (a key the object does not have is undefined, an absent object
  is \<open>None\<close>); the conditional logic is kept as the value it is.
\<close>

record validation =
  v_minLength :: jv
  v_maxLength :: jv
  v_min :: jv
  v_max :: jv
  v_pattern :: jv
  v_errorMessage :: jv
  v_email :: jv
  v_mobile :: jv
  v_url :: jv
  v_gst :: jv
  v_pan :: jv
  v_pincode :: jv
  v_alphanumeric :: jv
  v_alpha :: jv
  v_numeric :: jv

definition no_validation :: validation where
  "no_validation =
     \<lparr>v_minLength = JUndefined, v_maxLength = JUndefined, v_min = JUndefined,
      v_max = JUndefined, v_pattern = JUndefined, v_errorMessage = JUndefined,
      v_email = JUndefined, v_mobile = JUndefined, v_url = JUndefined, v_gst = JUndefined,
      v_pan = JUndefined, v_pincode = JUndefined, v_alphanumeric = JUndefined,
      v_alpha = JUndefined, v_numeric = JUndefined\<rparr>"

record field =
  f_id :: jv
  f_type :: jv
  f_label :: jv
  f_placeholder :: jv
  f_required :: jv
  f_options :: jv
  f_validation :: "validation option"
  f_conditionalLogic :: jv

record step =
  s_id :: jv
  s_name :: jv
  s_fields :: "field list"

record header_image =
  hi_url :: jv
  hi_height :: jv

record header_title =
  ht_text :: jv
  ht_fontFamily :: jv
  ht_fontSize :: jv
  ht_color :: jv
  ht_bold :: jv
  ht_italic :: jv
  ht_underline :: jv
  ht_align :: jv

record header_description =
  hd_html :: jv
  hd_text :: jv
  hd_fontSize :: jv
  hd_color :: jv

record header =
  h_image :: header_image
  h_title :: header_title
  h_description :: header_description

record settings =
  webhookUrl :: jv
  submitButtonText :: jv
  successMessage :: jv
  showProgressBar :: jv
  theme :: jv

text \<open>\<^verbatim>\<open>AppState.state\<close>.  \<open>currentStep\<close> is an integer, \<open>selectedElement\<close> is
  \<open>JNull\<close> when nothing is selected.\<close>

record state =
  projectName :: jv
  currentStep :: int
  selectedElement :: jv
  currentView :: jv
  header :: header
  steps :: "step list"
  settings :: settings

text \<open>\<^verbatim>\<open>AppState\<close>: the live state, the snapshots and the cursor.  Listeners and the
  persisted copy are written to and never read back by the operations below;
  \<^verbatim>\<open>notifyListeners\<close> catches what a listener throws and \<^verbatim>\<open>Helpers.storage.set\<close>
  catches what the store throws, so neither can leave an operation early.\<close>

record app =
  app_state :: state
  history :: "state list"
  historyIndex :: int

definition maxHistorySize :: nat where
  "maxHistorySize = 50"

text \<open>The argument of \<^verbatim>\<open>setState\<close>: an object with some of the keys of the state.\<close>

record updates =
  u_projectName :: "jv option"
  u_currentStep :: "int option"
  u_selectedElement :: "jv option"
  u_currentView :: "jv option"
  u_header :: "header option"
  u_steps :: "step list option"
  u_settings :: "settings option"

definition no_updates :: updates where
  "no_updates =
     \<lparr>u_projectName = None, u_currentStep = None, u_selectedElement = None,
      u_currentView = None, u_header = None, u_steps = None, u_settings = None\<rparr>"

text \<open>\<^verbatim>\<open>{ ...this.state, ...updates }\<close>\<close>

definition merge_state :: "state \<Rightarrow> updates \<Rightarrow> state" where
  "merge_state s u =
     \<lparr>projectName = (case u_projectName u of None \<Rightarrow> projectName s | Some x \<Rightarrow> x),
      currentStep = (case u_currentStep u of None \<Rightarrow> currentStep s | Some x \<Rightarrow> x),
      selectedElement = (case u_selectedElement u of None \<Rightarrow> selectedElement s | Some x \<Rightarrow> x),
      currentView = (case u_currentView u of None \<Rightarrow> currentView s | Some x \<Rightarrow> x),
      header = (case u_header u of None \<Rightarrow> header s | Some x \<Rightarrow> x),
      steps = (case u_steps u of None \<Rightarrow> steps s | Some x \<Rightarrow> x),
      settings = (case u_settings u of None \<Rightarrow> settings s | Some x \<Rightarrow> x)\<rparr>"

text \<open>\<^verbatim>\<open>xs.slice(0, e)\<close>: a negative end counts from the end of the array.\<close>

definition slice0 :: "'a list \<Rightarrow> int \<Rightarrow> 'a list" where
  "slice0 xs e = (if e < 0 then take (nat (int (length xs) + e)) xs else take (nat e) xs)"

text \<open>
  \<^verbatim>\<open>Helpers.deepClone\<close> copies primitives, arrays and plain objects; on a state of
  the data model (whose objects have \<^verbatim>\<open>Object.prototype\<close> as prototype and no own key
  \<^verbatim>\<open>hasOwnProperty\<close> or \<^verbatim>\<open>__proto__\<close>) the copy is equal to the original, and
  \<^verbatim>\<open>saveToHistory\<close> and \<^verbatim>\<open>setState\<close> are written with the state itself.  Other values
  can enter a state through the import only; the import below has both clones written
  out.
\<close>

text \<open>\<^verbatim>\<open>AppState.saveToHistory\<close>\<close>

definition saveToHistory :: "app \<Rightarrow> app" where
  "saveToHistory a =
     (let h1 = (if historyIndex a < int (length (history a)) - 1
                then slice0 (history a) (historyIndex a + 1) else history a);
          h2 = h1 @ [app_state a]
      in if length h2 > maxHistorySize
         then a\<lparr>history := tl h2\<rparr>
         else a\<lparr>history := h2, historyIndex := historyIndex a + 1\<rparr>)"

text \<open>\<^verbatim>\<open>AppState.setState(updates, saveHistory)\<close>\<close>

definition setState :: "app \<Rightarrow> updates \<Rightarrow> bool \<Rightarrow> app" where
  "setState a u saveHistory =
     (let a1 = a\<lparr>app_state := merge_state (app_state a) u\<rparr>
      in if saveHistory then saveToHistory a1 else a1)"

text \<open>
  \<^verbatim>\<open>AppState.undo\<close> and \<^verbatim>\<open>AppState.redo\<close> return the boolean and the container.
  \<^verbatim>\<open>this.history[i]\<close> with \<open>i\<close> outside the array is undefined, and the state would be
  overwritten with it: that outcome is \<open>None\<close>.
\<close>

definition history_at :: "app \<Rightarrow> int \<Rightarrow> state option" where
  "history_at a i =
     (if 0 \<le> i \<and> i < int (length (history a)) then Some (history a ! nat i) else None)"

definition undo :: "app \<Rightarrow> (bool \<times> app) option" where
  "undo a =
     (if historyIndex a > 0
      then (case history_at a (historyIndex a - 1) of
              None \<Rightarrow> None
            | Some s \<Rightarrow> Some (True, a\<lparr>historyIndex := historyIndex a - 1, app_state := s\<rparr>))
      else Some (False, a))"

definition redo :: "app \<Rightarrow> (bool \<times> app) option" where
  "redo a =
     (if historyIndex a < int (length (history a)) - 1
      then (case history_at a (historyIndex a + 1) of
              None \<Rightarrow> None
            | Some s \<Rightarrow> Some (True, a\<lparr>historyIndex := historyIndex a + 1, app_state := s\<rparr>))
      else Some (False, a))"



section \<open>Commands\<close>

text \<open>The state literal of \<^verbatim>\<open>AppState.state\<close> and of \<^verbatim>\<open>AppState.reset\<close>.\<close>

definition default_state :: state where
  "default_state =
     \<lparr>projectName = JStr ''Untitled Project'',
      currentStep = 0,
      selectedElement = JNull,
      currentView = JStr ''builder'',
      header =
        \<lparr>h_image = \<lparr>hi_url = JNull, hi_height = JNum 300\<rparr>,
         h_title =
           \<lparr>ht_text = JStr ''Welcome to Our Page'', ht_fontFamily = JStr ''Plus Jakarta Sans'',
            ht_fontSize = JNum 32, ht_color = JStr ''#1e293b'', ht_bold = JBool False,
            ht_italic = JBool False, ht_underline = JBool False, ht_align = JStr ''center''\<rparr>,
         h_description =
           \<lparr>hd_html = JStr ''<p>Fill out the form below to get started.</p>'',
            hd_text = JStr ''Fill out the form below to get started.'',
            hd_fontSize = JNum 16, hd_color = JStr ''#64748b''\<rparr>\<rparr>,
      steps = [\<lparr>s_id = JStr ''step_0'', s_name = JStr ''Welcome'', s_fields = []\<rparr>],
      settings =
        \<lparr>webhookUrl = JStr [], submitButtonText = JStr ''Submit'',
         successMessage = JStr ''Thank you! Your response has been recorded.'',
         showProgressBar = JBool True, theme = JStr ''light''\<rparr>\<rparr>"

text \<open>\<^verbatim>\<open>AppState.reset\<close>: the defaults, an empty history, one snapshot saved.\<close>

definition reset :: app where
  "reset = saveToHistory \<lparr>app_state = default_state, history = [], historyIndex = - 1\<rparr>"

text \<open>\<^verbatim>\<open>xs.filter((_, i) => i !== k)\<close>.  The index \<open>k\<close> is an integer; NaN and
  fractions, which no position equals, behave as an index outside the array.\<close>

definition filter_index :: "'a list \<Rightarrow> int \<Rightarrow> 'a list" where
  "filter_index xs k = map fst (filter (\<lambda>(x, i). int i \<noteq> k) (zip xs [0 ..< length xs]))"

text \<open>\<^verbatim>\<open>AppState.deleteStep\<close>\<close>

definition deleteStep :: "app \<Rightarrow> int \<Rightarrow> app" where
  "deleteStep a stepIndex =
     (if length (steps (app_state a)) \<le> 1 then a
      else
        let steps' = filter_index (steps (app_state a)) stepIndex;
            cs = currentStep (app_state a);
            cs' = (if cs \<ge> int (length steps') then int (length steps') - 1 else cs)
        in setState a (no_updates\<lparr>u_steps := Some steps', u_currentStep := Some cs'\<rparr>) True)"

text \<open>\<^verbatim>\<open>fields.findIndex(f => f.id === fieldId)\<close>; \<open>None\<close> is \<open>-1\<close>.\<close>

fun findIndex :: "field list \<Rightarrow> jv \<Rightarrow> nat option" where
  "findIndex [] fieldId = None"
| "findIndex (f # fs) fieldId =
     (if strict_eq (f_id f) fieldId then Some 0 else map_option Suc (findIndex fs fieldId))"

text \<open>\<^verbatim>\<open>xs.splice(i, 1)\<close> for an index inside the array.\<close>

definition splice1 :: "'a list \<Rightarrow> nat \<Rightarrow> 'a list" where
  "splice1 xs i = take i xs @ drop (Suc i) xs"

text \<open>The loop of \<^verbatim>\<open>AppState.deleteField\<close> over the cloned steps: the steps with the
  field removed from the first step that has it, or \<open>None\<close> when no step has it.\<close>

fun deleteField_steps :: "step list \<Rightarrow> jv \<Rightarrow> step list option" where
  "deleteField_steps [] fieldId = None"
| "deleteField_steps (st # sts) fieldId =
     (case findIndex (s_fields st) fieldId of
        Some i \<Rightarrow> Some (st\<lparr>s_fields := splice1 (s_fields st) i\<rparr> # sts)
      | None \<Rightarrow> map_option (\<lambda>r. st # r) (deleteField_steps sts fieldId))"

text \<open>\<^verbatim>\<open>AppState.deleteField\<close>\<close>

definition deleteField :: "app \<Rightarrow> jv \<Rightarrow> app" where
  "deleteField a fieldId =
     (case deleteField_steps (steps (app_state a)) fieldId of
        None \<Rightarrow> a
      | Some steps' \<Rightarrow>
          setState a (no_updates\<lparr>u_steps := Some steps', u_selectedElement := Some JNull\<rparr>) True)"

text \<open>\<^verbatim>\<open>AppState.getField\<close>: \<^verbatim>\<open>step.fields.find(f => f.id === fieldId)\<close> over the
  steps (a field is an object, so what \<^verbatim>\<open>find\<close> returns is truthy when it is found).\<close>

fun getField_steps :: "step list \<Rightarrow> jv \<Rightarrow> field option" where
  "getField_steps [] fieldId = None"
| "getField_steps (st # sts) fieldId =
     (case find (\<lambda>f. strict_eq (f_id f) fieldId) (s_fields st) of
        Some f \<Rightarrow> Some f
      | None \<Rightarrow> getField_steps sts fieldId)"

definition getField :: "app \<Rightarrow> jv \<Rightarrow> field option" where
  "getField a fieldId = getField_steps (steps (app_state a)) fieldId"

text \<open>\<^verbatim>\<open>AppState.selectElement\<close>\<close>

definition selectElement :: "app \<Rightarrow> jv \<Rightarrow> app" where
  "selectElement a elementId =
     setState a (no_updates\<lparr>u_selectedElement := Some elementId\<rparr>) False"

section \<open>Import\<close>

text \<open>\<^verbatim>\<open>Helpers.generateId(prefix)\<close>: \<^verbatim>\<open>`${prefix}_${Date.now()}_${random}`\<close>\<close>

definition generateId :: "platform \<Rightarrow> string \<Rightarrow> nat \<Rightarrow> jv" where
  "generateId P prefix n = JStr (prefix @ ''_'' @ id_suffix P n)"

fun truthy_json :: "json \<Rightarrow> bool" where
  "truthy_json NNull = False"
| "truthy_json (NBool b) = b"
| "truthy_json (NNum n) = (n \<noteq> 0)"
| "truthy_json (NStr s) = (s \<noteq> [])"
| "truthy_json (NArr _) = True"
| "truthy_json (NObj _) = True"

text \<open>
  \<^verbatim>\<open>x.k\<close> for a parsed value \<open>x\<close> that is not null, and \<^verbatim>\<open>x?.k\<close> for any parsed value;
  \<open>None\<close> is undefined.  A parsed object gives its own property.  Of the keys that the
  import reads, none is a member of \<^verbatim>\<open>Object.prototype\<close>, \<^verbatim>\<open>Array.prototype\<close>,
  \<^verbatim>\<open>Number.prototype\<close> or \<^verbatim>\<open>Boolean.prototype\<close>, and only \<^verbatim>\<open>bold\<close> is a member of
  \<^verbatim>\<open>String.prototype\<close>; the one place where \<^verbatim>\<open>bold\<close> is read has that case written out.
\<close>

fun read_prop :: "json \<Rightarrow> string \<Rightarrow> json option" where
  "read_prop (NObj kvs) k = map_of kvs k"
| "read_prop _ k = None"

definition opt_prop :: "json option \<Rightarrow> string \<Rightarrow> json option" where
  "opt_prop x k = (case x of None \<Rightarrow> None | Some v \<Rightarrow> read_prop v k)"

text \<open>
  \<^verbatim>\<open>Helpers.deepClone\<close> on a parsed value.  On an object the loop
  \<^verbatim>\<open>for (const key in obj) if (obj.hasOwnProperty(key)) clonedObj[key] = ...\<close> calls the
  object's own \<^verbatim>\<open>hasOwnProperty\<close> property when it has one, which in a parsed object is
  no function: a TypeError.  The assignment \<^verbatim>\<open>clonedObj['__proto__'] = v\<close> goes to the
  inherited setter: the clone gets no own property of that name (and the prototype \<open>v\<close>
  when \<open>v\<close> is an object, an array or null).  The result is the clone by its own
  properties.
\<close>

fun deepClone :: "json \<Rightarrow> js_error + jv"
  and deepClone_items :: "json list \<Rightarrow> js_error + jv list"
  and deepClone_props :: "(string \<times> json) list \<Rightarrow> js_error + (string \<times> jv) list" where
  "deepClone NNull = Inr JNull"
| "deepClone (NBool b) = Inr (JBool b)"
| "deepClone (NNum n) = Inr (JNum n)"
| "deepClone (NStr s) = Inr (JStr s)"
| "deepClone (NArr xs) =
     (case deepClone_items xs of Inl e \<Rightarrow> Inl e | Inr ys \<Rightarrow> Inr (JArr ys))"
| "deepClone (NObj kvs) =
     (if map_of kvs ''hasOwnProperty'' \<noteq> None then Inl TypeError
      else case deepClone_props kvs of Inl e \<Rightarrow> Inl e | Inr ps \<Rightarrow> Inr (JObj ps))"
| "deepClone_items [] = Inr []"
| "deepClone_items (x # xs) =
     (case deepClone x of
        Inl e \<Rightarrow> Inl e
      | Inr y \<Rightarrow> (case deepClone_items xs of Inl e \<Rightarrow> Inl e | Inr ys \<Rightarrow> Inr (y # ys)))"
| "deepClone_props [] = Inr []"
| "deepClone_props ((k, v) # r) =
     (case deepClone v of
        Inl e \<Rightarrow> Inl e
      | Inr w \<Rightarrow>
          (case deepClone_props r of
             Inl e \<Rightarrow> Inl e
           | Inr ps \<Rightarrow> Inr (if k = ''__proto__'' then ps else (k, w) # ps)))"

text \<open>
  Where the chain of prototypes of a first clone ends: at \<^verbatim>\<open>Object.prototype\<close> (no
  \<^verbatim>\<open>__proto__\<close> entry, or one the setter ignores because it is a primitive other than
  null, or one that is an object whose own clone ends there), at null, or beyond an
  array.  \<open>proto_chain v\<close> is for a clone that received the clone of \<open>v\<close> as prototype,
  \<open>props_chain kvs\<close> for the clone of the object with the properties \<open>kvs\<close>.
\<close>

datatype chain = ToObject | ToNull | ThroughArray

fun proto_chain :: "json \<Rightarrow> chain"
  and props_chain :: "(string \<times> json) list \<Rightarrow> chain" where
  "proto_chain NNull = ToNull"
| "proto_chain (NArr xs) = ThroughArray"
| "proto_chain (NObj kvs) = props_chain kvs"
| "proto_chain (NBool b) = ToObject"
| "proto_chain (NNum n) = ToObject"
| "proto_chain (NStr s) = ToObject"
| "props_chain [] = ToObject"
| "props_chain ((k, v) # r) = (if k = ''__proto__'' then proto_chain v else props_chain r)"

text \<open>The own enumerable properties of the first clone of an object.\<close>

definition own_props :: "(string \<times> json) list \<Rightarrow> (string \<times> json) list" where
  "own_props kvs = filter (\<lambda>(k, v). k \<noteq> ''__proto__'') kvs"

text \<open>Whether the first clone of an object inherits an enumerable property from the
  prototypes it has received.\<close>

fun proto_has_keys :: "json \<Rightarrow> bool"
  and props_inherit :: "(string \<times> json) list \<Rightarrow> bool" where
  "proto_has_keys (NObj kvs) = (own_props kvs \<noteq> [] \<or> props_inherit kvs)"
| "proto_has_keys NNull = False"
| "proto_has_keys (NBool b) = False"
| "proto_has_keys (NNum n) = False"
| "proto_has_keys (NStr s) = False"
| "proto_has_keys (NArr xs) = False"
| "props_inherit [] = False"
| "props_inherit ((k, v) # r) = (if k = ''__proto__'' then proto_has_keys v else props_inherit r)"

text \<open>
  \<^verbatim>\<open>Helpers.deepClone\<close> on the first clone of a parsed value \<open>d\<close> whose first clone
  succeeded, given by \<open>d\<close>.  An object whose chain of prototypes passes an array is an
  \<^verbatim>\<open>instanceof Array\<close> and goes to \<^verbatim>\<open>obj.map\<close>.  An object whose chain ends at null has no
  \<^verbatim>\<open>hasOwnProperty\<close>: the first turn of the loop throws, and there is a first turn when
  the object has an enumerable property, own or inherited.  Otherwise the inherited
  \<^verbatim>\<open>Object.prototype.hasOwnProperty\<close> lets the own properties through.
\<close>

fun reclone :: "platform \<Rightarrow> json \<Rightarrow> js_error + jv"
  and reclone_items :: "platform \<Rightarrow> json list \<Rightarrow> js_error + jv list"
  and reclone_props :: "platform \<Rightarrow> (string \<times> json) list \<Rightarrow> js_error + (string \<times> jv) list" where
  "reclone P NNull = Inr JNull"
| "reclone P (NBool b) = Inr (JBool b)"
| "reclone P (NNum n) = Inr (JNum n)"
| "reclone P (NStr s) = Inr (JStr s)"
| "reclone P (NArr xs) =
     (case reclone_items P xs of Inl e \<Rightarrow> Inl e | Inr ys \<Rightarrow> Inr (JArr ys))"
| "reclone P (NObj kvs) =
     (case props_chain kvs of
        ThroughArray \<Rightarrow> map_arraylike P (NObj kvs)
      | ToNull \<Rightarrow>
          if own_props kvs = [] \<and> \<not> props_inherit kvs then Inr (JObj []) else Inl TypeError
      | ToObject \<Rightarrow>
          (case reclone_props P kvs of Inl e \<Rightarrow> Inl e | Inr ps \<Rightarrow> Inr (JObj ps)))"
| "reclone_items P [] = Inr []"
| "reclone_items P (x # xs) =
     (case reclone P x of
        Inl e \<Rightarrow> Inl e
      | Inr y \<Rightarrow> (case reclone_items P xs of Inl e \<Rightarrow> Inl e | Inr ys \<Rightarrow> Inr (y # ys)))"
| "reclone_props P [] = Inr []"
| "reclone_props P ((k, v) # r) =
     (if k = ''__proto__'' then reclone_props P r
      else case reclone P v of
             Inl e \<Rightarrow> Inl e
           | Inr w \<Rightarrow>
               (case reclone_props P r of Inl e \<Rightarrow> Inl e | Inr ps \<Rightarrow> Inr ((k, w) # ps)))"

text \<open>All results in order, or the first error.\<close>

fun all_e :: "('e + 'a) list \<Rightarrow> 'e + 'a list" where
  "all_e [] = Inr []"
| "all_e (x # xs) =
     (case x of
        Inl e \<Rightarrow> Inl e
      | Inr y \<Rightarrow> (case all_e xs of Inl e \<Rightarrow> Inl e | Inr ys \<Rightarrow> Inr (y # ys)))"

text \<open>
  A value that the import copies into the new state, after the clone \<open>cl\<close>: \<open>leaf\<close> for
  \<^verbatim>\<open>x\<close> as it is (undefined when absent), \<open>leaf_or\<close> for \<^verbatim>\<open>x || d\<close>.
\<close>

definition present :: "json option \<Rightarrow> bool" where
  "present x = (case x of None \<Rightarrow> False | Some v \<Rightarrow> truthy_json v)"

definition leaf :: "(json \<Rightarrow> js_error + jv) \<Rightarrow> json option \<Rightarrow> js_error + jv" where
  "leaf cl x = (case x of None \<Rightarrow> Inr JUndefined | Some v \<Rightarrow> cl v)"

definition leaf_or :: "(json \<Rightarrow> js_error + jv) \<Rightarrow> json option \<Rightarrow> jv \<Rightarrow> js_error + jv" where
  "leaf_or cl x d = (if present x then leaf cl x else Inr d)"

text \<open>
  The import is written once for both clones that \<^verbatim>\<open>setState\<close> makes of the new state:
  with \<open>cl = deepClone\<close> it gives the state that \<^verbatim>\<open>setState\<close> assigns, with
  \<open>cl = reclone P\<close> the snapshot that \<^verbatim>\<open>saveToHistory\<close> pushes.  An error is either a
  throw while \<^verbatim>\<open>newState\<close> is built or a throw of the clone; with \<open>cl = deepClone\<close> both
  come before \<^verbatim>\<open>this.state\<close> is assigned.  The values already in the state are of the
  data model and are copied as they are.
\<close>

text \<open>The body of the inner \<^verbatim>\<open>map\<close> of \<^verbatim>\<open>importJSON\<close>, for one field; \<open>n\<close> counts
  the ids generated so far.  Reading \<^verbatim>\<open>field.id\<close> of null throws.\<close>

definition import_field ::
  "(json \<Rightarrow> js_error + jv) \<Rightarrow> platform \<Rightarrow> json \<Rightarrow> nat \<Rightarrow> js_error + (field \<times> nat)" where
  "import_field cl P fd n =
     (if fd = NNull then Inl TypeError
      else
        let vd = read_prop fd ''validation'';
            has_id = present (read_prop fd ''id'')
        in case all_e
             [if has_id then leaf cl (read_prop fd ''id'') else Inr (generateId P ''field'' n),
              leaf cl (read_prop fd ''type''),
              leaf cl (read_prop fd ''label''),
              leaf_or cl (read_prop fd ''placeholder'') (JStr []),
              leaf_or cl (read_prop fd ''required'') (JBool False),
              leaf_or cl (read_prop fd ''options'') (JArr []),
              leaf cl (opt_prop vd ''min_length''),
              leaf cl (opt_prop vd ''max_length''),
              leaf cl (opt_prop vd ''pattern''),
              leaf cl (opt_prop vd ''error_message''),
              leaf_or cl (read_prop fd ''conditional_logic'') (JObj [(''enabled'', JBool False)])]
           of
             Inl e \<Rightarrow> Inl e
           | Inr ys \<Rightarrow>
               Inr (\<lparr>f_id = ys ! 0, f_type = ys ! 1, f_label = ys ! 2, f_placeholder = ys ! 3,
                     f_required = ys ! 4, f_options = ys ! 5,
                     f_validation =
                       Some (no_validation
                         \<lparr>v_minLength := ys ! 6, v_maxLength := ys ! 7, v_pattern := ys ! 8,
                          v_errorMessage := ys ! 9\<rparr>),
                     f_conditionalLogic = ys ! 10\<rparr>,
                    if has_id then n else Suc n))"

fun import_fields ::
  "(json \<Rightarrow> js_error + jv) \<Rightarrow> platform \<Rightarrow> json list \<Rightarrow> nat \<Rightarrow> js_error + (field list \<times> nat)" where
  "import_fields cl P [] n = Inr ([], n)"
| "import_fields cl P (fd # fds) n =
     (case import_field cl P fd n of
        Inl e \<Rightarrow> Inl e
      | Inr (f, n1) \<Rightarrow>
          (case import_fields cl P fds n1 of
             Inl e \<Rightarrow> Inl e
           | Inr (fs, n2) \<Rightarrow> Inr (f # fs, n2)))"

text \<open>The array of \<^verbatim>\<open>(x || []).map(g)\<close>: anything truthy that is not an array has no
  callable \<^verbatim>\<open>map\<close>, and the call throws.\<close>

definition array_or_empty :: "json option \<Rightarrow> js_error + json list" where
  "array_or_empty x =
     (if present x then (case x of Some (NArr xs) \<Rightarrow> Inr xs | _ \<Rightarrow> Inl TypeError) else Inr [])"

text \<open>The body of the outer \<^verbatim>\<open>map\<close>, for the step at position \<open>index\<close>.  Reading
  \<^verbatim>\<open>step.step_name\<close> of null throws.\<close>

definition import_step ::
  "(json \<Rightarrow> js_error + jv) \<Rightarrow> platform \<Rightarrow> json \<Rightarrow> nat \<Rightarrow> nat \<Rightarrow> js_error + (step \<times> nat)" where
  "import_step cl P sd index n =
     (if sd = NNull then Inl TypeError
      else
        case leaf_or cl (read_prop sd ''step_name'') (JStr (''Step '' @ show_int (int index + 1))) of
          Inl e \<Rightarrow> Inl e
        | Inr name \<Rightarrow>
            (case array_or_empty (read_prop sd ''fields'') of
               Inl e \<Rightarrow> Inl e
             | Inr fds \<Rightarrow>
                 (case import_fields cl P fds (Suc n) of
                    Inl e \<Rightarrow> Inl e
                  | Inr (fs, n1) \<Rightarrow>
                      Inr (\<lparr>s_id = generateId P ''step'' n, s_name = name, s_fields = fs\<rparr>, n1))))"

fun import_steps ::
  "(json \<Rightarrow> js_error + jv) \<Rightarrow> platform \<Rightarrow> json list \<Rightarrow> nat \<Rightarrow> nat
     \<Rightarrow> js_error + (step list \<times> nat)" where
  "import_steps cl P [] index n = Inr ([], n)"
| "import_steps cl P (sd # sds) index n =
     (case import_step cl P sd index n of
        Inl e \<Rightarrow> Inl e
      | Inr (st, n1) \<Rightarrow>
          (case import_steps cl P sds (Suc index) n1 of
             Inl e \<Rightarrow> Inl e
           | Inr (sts, n2) \<Rightarrow> Inr (st # sts, n2)))"

text \<open>The title of the new state: built from \<^verbatim>\<open>data.title\<close> when that is truthy, else
  the current one.  On a string, \<^verbatim>\<open>data.title.bold\<close> is the built-in
  \<^verbatim>\<open>String.prototype.bold\<close>, which is truthy and which the clone returns as it is.\<close>

definition import_title ::
  "(json \<Rightarrow> js_error + jv) \<Rightarrow> header_title \<Rightarrow> json option \<Rightarrow> js_error + header_title" where
  "import_title cl cur t =
     (if present t
      then
        case all_e
          [leaf_or cl (opt_prop t ''text'') (JStr []),
           leaf_or cl (opt_prop t ''font_family'') (JStr ''Plus Jakarta Sans''),
           leaf_or cl (opt_prop t ''font_size'') (JNum 32),
           leaf_or cl (opt_prop t ''color'') (JStr ''#1e293b''),
           (case t of
              Some (NStr s) \<Rightarrow> Inr (JFun ''String.prototype.bold'')
            | _ \<Rightarrow> leaf_or cl (opt_prop t ''bold'') (JBool False)),
           leaf_or cl (opt_prop t ''italic'') (JBool False),
           leaf_or cl (opt_prop t ''underline'') (JBool False),
           leaf_or cl (opt_prop t ''align'') (JStr ''center'')]
        of
          Inl e \<Rightarrow> Inl e
        | Inr ys \<Rightarrow>
            Inr \<lparr>ht_text = ys ! 0, ht_fontFamily = ys ! 1, ht_fontSize = ys ! 2,
                 ht_color = ys ! 3, ht_bold = ys ! 4, ht_italic = ys ! 5,
                 ht_underline = ys ! 6, ht_align = ys ! 7\<rparr>
      else Inr cur)"

definition import_description ::
  "(json \<Rightarrow> js_error + jv) \<Rightarrow> header_description \<Rightarrow> json option
     \<Rightarrow> js_error + header_description" where
  "import_description cl cur d =
     (if present d
      then
        case all_e
          [leaf_or cl (opt_prop d ''html'') (JStr []),
           leaf_or cl (opt_prop d ''text'') (JStr []),
           leaf_or cl (opt_prop d ''font_size'') (JNum 16),
           leaf_or cl (opt_prop d ''color'') (JStr ''#64748b'')]
        of
          Inl e \<Rightarrow> Inl e
        | Inr ys \<Rightarrow>
            Inr \<lparr>hd_html = ys ! 0, hd_text = ys ! 1, hd_fontSize = ys ! 2, hd_color = ys ! 3\<rparr>
      else Inr cur)"

text \<open>
  The state \<^verbatim>\<open>{ ...this.state, ...newState, currentStep: 0, selectedElement: null }\<close>
  for parsed data that is not null, under the clone \<open>cl\<close>; the default step is put in
  when no step was imported.
\<close>

definition import_state ::
  "(json \<Rightarrow> js_error + jv) \<Rightarrow> platform \<Rightarrow> state \<Rightarrow> json \<Rightarrow> js_error + state" where
  "import_state cl P st data =
     (let sg = read_prop data ''settings''
      in case all_e
           [leaf_or cl (read_prop data ''project_name'') (JStr ''Imported Project''),
            leaf cl (read_prop data ''header_image''),
            leaf_or cl (read_prop data ''header_image_height'') (JNum 300),
            leaf_or cl (read_prop data ''webhook_url'') (JStr []),
            leaf_or cl (opt_prop sg ''submit_button_text'') (JStr ''Submit''),
            leaf_or cl (opt_prop sg ''success_message'') (JStr ''Thank you!'')]
         of
           Inl e \<Rightarrow> Inl e
         | Inr ys \<Rightarrow>
             (case import_title cl (h_title (header st)) (read_prop data ''title'') of
                Inl e \<Rightarrow> Inl e
              | Inr title \<Rightarrow>
                  (case import_description cl (h_description (header st))
                          (read_prop data ''description'') of
                     Inl e \<Rightarrow> Inl e
                   | Inr description \<Rightarrow>
                       (case array_or_empty (read_prop data ''steps'') of
                          Inl e \<Rightarrow> Inl e
                        | Inr sds \<Rightarrow>
                            (case import_steps cl P sds 0 0 of
                               Inl e \<Rightarrow> Inl e
                             | Inr (sts, n) \<Rightarrow>
                                 Inr \<lparr>projectName = ys ! 0,
                                      currentStep = 0,
                                      selectedElement = JNull,
                                      currentView = currentView st,
                                      header =
                                        \<lparr>h_image = \<lparr>hi_url = ys ! 1, hi_height = ys ! 2\<rparr>,
                                         h_title = title,
                                         h_description = description\<rparr>,
                                      steps =
                                        (if length sts = 0
                                         then [\<lparr>s_id = JStr ''step_0'', s_name = JStr ''Step 1'',
                                                 s_fields = []\<rparr>]
                                         else sts),
                                      settings =
                                        \<lparr>webhookUrl = ys ! 3,
                                         submitButtonText = ys ! 4,
                                         successMessage = ys ! 5,
                                         showProgressBar =
                                           JBool (opt_prop sg ''show_progress_bar''
                                                    \<noteq> Some (NBool False)),
                                         theme = theme (settings st)\<rparr>\<rparr>)))))"

text \<open>The first statement of \<^verbatim>\<open>saveToHistory\<close>: the snapshots after the cursor are
  dropped.\<close>

definition drop_future :: "app \<Rightarrow> app" where
  "drop_future a =
     a\<lparr>history := (if historyIndex a < int (length (history a)) - 1
                    then slice0 (history a) (historyIndex a + 1) else history a)\<rparr>"

text \<open>
  \<^verbatim>\<open>AppState.importJSON(json)\<close>: the boolean it returns and the container afterwards.
  The argument is a text (a parsed string \<open>NStr s\<close> stands for the text \<open>s\<close>) or a
  document that was parsed before.  Inside the \<^verbatim>\<open>try\<close>: the parse; the construction of
  \<^verbatim>\<open>newState\<close>; in \<^verbatim>\<open>setState\<close> the first clone and the assignment of \<^verbatim>\<open>this.state\<close>;
  in \<^verbatim>\<open>saveToHistory\<close> the truncation of the history, then the second clone, of the state
  just assigned, and the push of the snapshot.  A throw of the second clone leaves the
  function with the state assigned and the history truncated.
\<close>

definition importJSON :: "platform \<Rightarrow> app \<Rightarrow> json \<Rightarrow> bool \<times> app" where
  "importJSON P a j =
     (case (case j of NStr s \<Rightarrow> json_parse P s | _ \<Rightarrow> Some j) of
        None \<Rightarrow> (False, a)
      | Some data \<Rightarrow>
          if data = NNull then (False, a)
          else
            (case import_state deepClone P (app_state a) data of
               Inl e \<Rightarrow> (False, a)
             | Inr s1 \<Rightarrow>
                 (case import_state (reclone P) P (app_state a) data of
                    Inl e \<Rightarrow> (False, drop_future (a\<lparr>app_state := s1\<rparr>))
                  | Inr s2 \<Rightarrow>
                      (True, (saveToHistory (a\<lparr>app_state := s2\<rparr>))\<lparr>app_state := s1\<rparr>))))"

section \<open>Derived notions used by the properties\<close>

text \<open>A platform for closed instances: no two numbers compare, every url matches, no
  user pattern compiles, no text parses, the n-th id suffix is \<open>n\<close> in decimal, a large
  number is printed as \<open>1e+21\<close>, a built-in function as the last part of its name in the
  usual frame, \<^verbatim>\<open>Object.prototype\<close> has the members the language defines, and \<^verbatim>\<open>map\<close> on
  an object that inherits from an array gives the empty array (as it does when the
  array is empty and no \<^verbatim>\<open>length\<close> property is in the way).\<close>

definition stub_platform :: platform where
  "stub_platform =
     \<lparr>parseFloat_lt = (\<lambda>_ _. False), url_test = (\<lambda>_. True), regexp_test = (\<lambda>_ _. None),
      json_parse = (\<lambda>_. None), id_suffix = (\<lambda>n. show_int (int n)),
      large_number_string = (\<lambda>_. ''1e+21''),
      native_source =
        (\<lambda>f. ''function '' @ rev (takeWhile (\<lambda>c. c \<noteq> CHR ''.'') (rev f))
               @ ''() { [native code] }''),
      object_prototype = standard_object_prototype,
      map_arraylike = (\<lambda>_. Inr (JArr []))\<rparr>"

text \<open>A field is hidden under a value mapping when its conditional logic is enabled and
  the evaluator says false: the test at the head of \<^verbatim>\<open>validateField\<close>.\<close>

definition hidden :: "platform \<Rightarrow> jvalues \<Rightarrow> descriptor option \<Rightarrow> bool" where
  "hidden P values cl =
     ((case cl of None \<Rightarrow> False | Some c \<Rightarrow> truthy_prim (d_enabled c))
      \<and> evaluateCondition P cl values = Inr False)"

text \<open>A field is visible under a value mapping when the evaluator says true, which it
  also does for an absent or disabled conditional logic.\<close>

definition visible :: "platform \<Rightarrow> jvalues \<Rightarrow> descriptor option \<Rightarrow> bool" where
  "visible P values cl = (evaluateCondition P cl values = Inr True)"

text \<open>A valid project (data model, invariants a and c): at least one step, and the
  active step index within the steps.\<close>

definition valid_project :: "state \<Rightarrow> bool" where
  "valid_project s =
     (length (steps s) \<ge> 1 \<and> 0 \<le> currentStep s \<and> currentStep s < int (length (steps s)))"

text \<open>The history invariant of every reachable container: the cursor is \<open>-1\<close> only
  before the first snapshot, never past the last snapshot, and the window never holds
  more than \<open>maxHistorySize\<close> snapshots.\<close>

definition history_ok :: "app \<Rightarrow> bool" where
  "history_ok a =
     (- 1 \<le> historyIndex a \<and> historyIndex a < int (length (history a))
      \<and> length (history a) \<le> maxHistorySize)"




text \<open>A run of \<^verbatim>\<open>deleteStep\<close> calls.\<close>

fun deleteSteps :: "app \<Rightarrow> int list \<Rightarrow> app" where
  "deleteSteps a [] = a"
| "deleteSteps a (k # ks) = deleteSteps (deleteStep a k) ks"

text \<open>The rules object with no key set, and the property that, the type and the
  \<open>required\<close>, \<open>email\<close> and \<open>mobile\<close> keys apart, no rule of the validator is set.\<close>

definition no_rules :: rules where
  "no_rules =
     \<lparr>r_type = PUndefined, r_required = PUndefined, r_minLength = PUndefined,
      r_maxLength = PUndefined, r_min = PUndefined, r_max = PUndefined, r_pattern = PUndefined,
      r_errorMessage = PUndefined, r_conditionalLogic = None, r_email = PUndefined,
      r_mobile = PUndefined, r_url = PUndefined, r_gst = PUndefined, r_pan = PUndefined,
      r_pincode = PUndefined, r_alphanumeric = PUndefined, r_alpha = PUndefined,
      r_numeric = PUndefined\<rparr>"

definition no_other_rule :: "rules \<Rightarrow> bool" where
  "no_other_rule rules =
     (\<not> truthy_prim (r_url rules) \<and> \<not> is_set (r_minLength rules) \<and> \<not> is_set (r_maxLength rules)
      \<and> \<not> is_set (r_min rules) \<and> \<not> is_set (r_max rules) \<and> \<not> truthy_prim (r_pattern rules)
      \<and> \<not> truthy_prim (r_gst rules) \<and> \<not> truthy_prim (r_pan rules) \<and> \<not> truthy_prim (r_pincode rules)
      \<and> \<not> truthy_prim (r_alphanumeric rules) \<and> \<not> truthy_prim (r_alpha rules)
      \<and> \<not> truthy_prim (r_numeric rules))"

text \<open>The rules \<^verbatim>\<open>{type: "mobile", required: true}\<close> of the validation scenario.\<close>

definition mobile_scenario_rules :: rules where
  "mobile_scenario_rules = no_rules\<lparr>r_type := PStr ''mobile'', r_required := PBool True\<rparr>"

text \<open>The field that \<^verbatim>\<open>AppState.addField('text')\<close> builds from
  \<^verbatim>\<open>getFieldDefaults('text')\<close>, with the generated id \<open>i\<close>.\<close>

definition addField_text :: "jv \<Rightarrow> field" where
  "addField_text i =
     \<lparr>f_id = i, f_type = JStr ''text'', f_label = JStr ''Text Field'',
      f_placeholder = JStr ''Enter text...'', f_required = JBool False, f_options = JUndefined,
      f_validation = Some no_validation,
      f_conditionalLogic = JObj [(''enabled'', JBool False)]\<rparr>"

text \<open>The configuration of a required text field \<open>phone\<close> that is shown only when the
  field \<open>f1\<close> equals \<open>x\<close>.\<close>

definition conditional_field :: field_config where
  "conditional_field =
     \<lparr>fc_id = ''phone'', fc_type = PStr ''text'', fc_required = PBool True,
      fc_validation = Some no_rule_set,
      fc_conditionalLogic =
        Some \<lparr>d_enabled = PBool True, d_field = PStr ''f1'', d_operator = PStr ''equals'',
              d_value = Prim (PStr ''x'')\<rparr>\<rparr>"

text \<open>A container after \<^verbatim>\<open>reset\<close>-like initialisation whose project has two steps, the
  field \<open>f0\<close> in the first, the fields \<open>f1\<close> and \<open>f2\<close> in the second, the second step
  active and the element \<open>sel\<close> selected.\<close>

definition two_steps :: "jv \<Rightarrow> app" where
  "two_steps sel =
     saveToHistory
       \<lparr>app_state = default_state
          \<lparr>selectedElement := sel, currentStep := 1,
           steps := [\<lparr>s_id = JStr ''step_0'', s_name = JStr ''Welcome'',
                      s_fields = [addField_text (JStr ''f0'')]\<rparr>,
                     \<lparr>s_id = JStr ''step_1'', s_name = JStr ''Step 2'',
                      s_fields = [addField_text (JStr ''f1''), addField_text (JStr ''f2'')]\<rparr>]\<rparr>,
        history = [], historyIndex = - 1\<rparr>"

text \<open>The document \<^verbatim>\<open>{"header_image": {"__proto__": null, "a": 1}}\<close> as
  \<^verbatim>\<open>JSON.parse\<close> gives it: the inner object has the two own properties \<^verbatim>\<open>__proto__\<close> and
  \<open>a\<close>.\<close>

definition null_proto_document :: json where
  "null_proto_document =
     NObj [(''header_image'', NObj [(''__proto__'', NNull), (''a'', NNum 1)])]"

section \<open>Properties of the condition evaluator\<close>

text \<open>
  Claim C6.  The evaluator answers true (visible) when the descriptor is absent, when
  its enabled flag is falsy, when its trigger field reference is empty (falsy), and when
  its operator is none of the recognized ones; for an enabled descriptor with a trigger
  field and the operator \<open>equals\<close> it answers true exactly when the value looked up for
  the trigger field (an own property of the value mapping, else what the mapping
  inherits, else undefined) is strictly equal to the comparison value, and false
  otherwise.  In all these cases it returns without throwing.
\<close>

theorem evaluateCondition_contract:
  "evaluateCondition P None values = Inr True
   \<and> (\<not> truthy_prim (d_enabled c) \<longrightarrow> evaluateCondition P (Some c) values = Inr True)
   \<and> (\<not> truthy_prim (d_field c) \<longrightarrow> evaluateCondition P (Some c) values = Inr True)
   \<and> ((\<forall>s \<in> set recognized_operators. d_operator c \<noteq> PStr s)
        \<longrightarrow> evaluateCondition P (Some c) values = Inr True)
   \<and> (truthy_prim (d_enabled c) \<and> truthy_prim (d_field c) \<and> d_operator c = PStr ''equals''
        \<longrightarrow> evaluateCondition P (Some c) values
            = Inr (strict_eq_fv (lookup P values (prim_string P (d_field c))) (d_value c)))"
  by (simp add: evaluateCondition_def recognized_operators_def Let_def)

text \<open>The scenario of the specification (\<open>f1\<close> equals \<open>x\<close>, against \<open>x\<close> and against
  \<open>y\<close>), a disabled descriptor, an empty trigger reference, an unknown operator, and a
  trigger reference that names an inherited member: \<open>toString\<close> against no comparison
  value with no form value at all compares a function with undefined.  Two arrays with
  the same elements are two references.\<close>

theorem evaluateCondition_contract_witness:
  "evaluateCondition stub_platform
     (Some \<lparr>d_enabled = PBool True, d_field = PStr ''f1'', d_operator = PStr ''equals'',
            d_value = Prim (PStr ''x'')\<rparr>) [''f1'' \<mapsto> Prim (PStr ''x'')] = Inr True
   \<and> evaluateCondition stub_platform
     (Some \<lparr>d_enabled = PBool True, d_field = PStr ''f1'', d_operator = PStr ''equals'',
            d_value = Prim (PStr ''x'')\<rparr>) [''f1'' \<mapsto> Prim (PStr ''y'')] = Inr False
   \<and> evaluateCondition stub_platform
     (Some \<lparr>d_enabled = PBool False, d_field = PStr ''f1'', d_operator = PStr ''equals'',
            d_value = Prim (PStr ''x'')\<rparr>) [''f1'' \<mapsto> Prim (PStr ''y'')] = Inr True
   \<and> evaluateCondition stub_platform
     (Some \<lparr>d_enabled = PBool True, d_field = PStr [], d_operator = PStr ''equals'',
            d_value = Prim (PStr ''x'')\<rparr>) [''f1'' \<mapsto> Prim (PStr ''y'')] = Inr True
   \<and> evaluateCondition stub_platform
     (Some \<lparr>d_enabled = PBool True, d_field = PStr ''f1'', d_operator = PStr ''matches'',
            d_value = Prim (PStr ''x'')\<rparr>) [''f1'' \<mapsto> Prim (PStr ''y'')] = Inr True
   \<and> evaluateCondition stub_platform
     (Some \<lparr>d_enabled = PBool True, d_field = PStr ''toString'', d_operator = PStr ''equals'',
            d_value = Prim PUndefined\<rparr>) Map.empty = Inr False
   \<and> evaluateCondition stub_platform
     (Some \<lparr>d_enabled = PBool True, d_field = PStr ''f1'', d_operator = PStr ''equals'',
            d_value = Arr 2 [Prim (PStr ''x'')]\<rparr>) [''f1'' \<mapsto> Arr 1 [Prim (PStr ''x'')]]
       = Inr False"
  using
    evaluateCondition_contract [of stub_platform "[''f1'' \<mapsto> Prim (PStr ''x'')]"
      "\<lparr>d_enabled = PBool True, d_field = PStr ''f1'', d_operator = PStr ''equals'',
        d_value = Prim (PStr ''x'')\<rparr>"]
    evaluateCondition_contract [of stub_platform "[''f1'' \<mapsto> Prim (PStr ''y'')]"
      "\<lparr>d_enabled = PBool True, d_field = PStr ''f1'', d_operator = PStr ''equals'',
        d_value = Prim (PStr ''x'')\<rparr>"]
    evaluateCondition_contract [of stub_platform "[''f1'' \<mapsto> Prim (PStr ''y'')]"
      "\<lparr>d_enabled = PBool False, d_field = PStr ''f1'', d_operator = PStr ''equals'',
        d_value = Prim (PStr ''x'')\<rparr>"]
    evaluateCondition_contract [of stub_platform "[''f1'' \<mapsto> Prim (PStr ''y'')]"
      "\<lparr>d_enabled = PBool True, d_field = PStr [], d_operator = PStr ''equals'',
        d_value = Prim (PStr ''x'')\<rparr>"]
    evaluateCondition_contract [of stub_platform "[''f1'' \<mapsto> Prim (PStr ''y'')]"
      "\<lparr>d_enabled = PBool True, d_field = PStr ''f1'', d_operator = PStr ''matches'',
        d_value = Prim (PStr ''x'')\<rparr>"]
    evaluateCondition_contract [of stub_platform Map.empty
      "\<lparr>d_enabled = PBool True, d_field = PStr ''toString'', d_operator = PStr ''equals'',
        d_value = Prim PUndefined\<rparr>"]
    evaluateCondition_contract [of stub_platform "[''f1'' \<mapsto> Arr 1 [Prim (PStr ''x'')]]"
      "\<lparr>d_enabled = PBool True, d_field = PStr ''f1'', d_operator = PStr ''equals'',
        d_value = Arr 2 [Prim (PStr ''x'')]\<rparr>"]
  by (simp add: recognized_operators_def lookup_def stub_platform_def
      standard_object_prototype_def)

section \<open>Properties of the field validator\<close>

lemma validateField_hidden:
  "hidden P values (r_conditionalLogic rules) \<Longrightarrow>
   validateField P v rules values = Inr \<lparr>valid = True, error = PNull\<rparr>"
  by (auto simp: validateField_def hidden_def pass_def split: option.splits)

lemma rules_of_conditionalLogic [simp]:
  "r_conditionalLogic (rules_of f) = fc_conditionalLogic f"
  by (simp add: rules_of_def Let_def)

lemma validateForm_loop_skip_hidden:
  "hidden P values (fc_conditionalLogic f) \<Longrightarrow>
   validateForm_loop P values (xs @ f # ys) acc = validateForm_loop P values (xs @ ys) acc"
proof (induction xs arbitrary: acc)
  case Nil
  then show ?case by (simp add: validateField_hidden)
next
  case (Cons x xs)
  then show ?case by (simp split: sum.splits)
qed

text \<open>Every error the loop records beyond those it started with belongs to a field
  that is not hidden.\<close>

lemma validateForm_loop_errors:
  "validateForm_loop P values fs acc = Inr r \<Longrightarrow> errors r k = Some e \<Longrightarrow>
   errors acc k \<noteq> None
   \<or> (\<exists>g \<in> set fs. fc_id g = k \<and> \<not> hidden P values (fc_conditionalLogic g))"
proof (induction fs arbitrary: acc)
  case Nil
  then show ?case by simp
next
  case (Cons f fs)
  show ?case
  proof (cases "hidden P values (fc_conditionalLogic f)")
    case True
    with Cons.prems have "validateForm_loop P values fs acc = Inr r"
      by (simp add: validateField_hidden)
    from Cons.IH [OF this Cons.prems(2)] show ?thesis by auto
  next
    case False
    from Cons.prems(1) obtain res where
      res: "validateField P (lookup P values (fc_id f)) (rules_of f) values = Inr res"
      and loop: "validateForm_loop P values fs
            (if \<not> valid res
             then \<lparr>form_valid = False,
                   errors = set_error (errors acc) (fc_id f) (error res)\<rparr>
             else acc) = Inr r"
      by (auto split: sum.splits)
    from Cons.IH [OF loop Cons.prems(2)] False show ?thesis
      by (auto simp: set_error_def split: if_splits)
  qed
qed

text \<open>
  Claim C5.  When the conditional logic of a rule set is enabled and its condition
  evaluates to false against the value mapping, \<open>validateField\<close> returns valid with no
  error, whatever the value and the other rules are.  For a field of a form in that
  situation, \<open>validateForm\<close> gets that result for it, gives the same outcome as for the
  form without the field, and (when every other field with the same id is hidden too)
  records no error under the field's id.
\<close>

theorem hidden_field_skip:
  assumes "hidden P values (r_conditionalLogic rules)"
    and "hidden P values (fc_conditionalLogic f)"
  shows "validateField P v rules values = Inr \<lparr>valid = True, error = PNull\<rparr>
    \<and> validateField P (lookup P values (fc_id f)) (rules_of f) values
        = Inr \<lparr>valid = True, error = PNull\<rparr>
    \<and> validateForm P values (xs @ f # ys) = validateForm P values (xs @ ys)
    \<and> (\<forall>r. validateForm P values (xs @ f # ys) = Inr r
          \<and> (\<forall>g \<in> set (xs @ ys). fc_id g = fc_id f
                \<longrightarrow> hidden P values (fc_conditionalLogic g))
          \<longrightarrow> errors r (fc_id f) = None)"
proof -
  have a: "validateField P v rules values = Inr \<lparr>valid = True, error = PNull\<rparr>"
    using assms(1) by (rule validateField_hidden)
  have b: "validateField P (lookup P values (fc_id f)) (rules_of f) values
        = Inr \<lparr>valid = True, error = PNull\<rparr>"
    using assms(2) by (simp add: validateField_hidden)
  have c: "validateForm P values (xs @ f # ys) = validateForm P values (xs @ ys)"
    using assms(2) by (simp add: validateForm_def validateForm_loop_skip_hidden)
  have d: "errors r (fc_id f) = None"
    if r: "validateForm P values (xs @ f # ys) = Inr r"
      and u: "\<forall>g \<in> set (xs @ ys). fc_id g = fc_id f
                \<longrightarrow> hidden P values (fc_conditionalLogic g)" for r
  proof (rule ccontr)
    assume "errors r (fc_id f) \<noteq> None"
    then obtain e where e: "errors r (fc_id f) = Some e" by auto
    from r c have "validateForm_loop P values (xs @ ys)
        \<lparr>form_valid = True, errors = Map.empty\<rparr> = Inr r"
      by (simp add: validateForm_def)
    from validateForm_loop_errors [OF this e] u show False by auto
  qed
  from a b c d show ?thesis by blast
qed

text \<open>The required field \<open>phone\<close>, empty, with \<open>f1 = y\<close>: hidden, so valid and without
  an error in the form's result; the same field without its condition fails the
  required check.  With the condition \<open>toString\<close> is empty and no form value at all, the
  field is hidden as well: the value looked up is the inherited function, which is not
  empty.\<close>

theorem hidden_field_skip_witness:
  "hidden stub_platform [''f1'' \<mapsto> Prim (PStr ''y'')] (fc_conditionalLogic conditional_field)
   \<and> validateField stub_platform (Prim (PStr [])) (rules_of conditional_field)
        [''f1'' \<mapsto> Prim (PStr ''y'')]
       = Inr \<lparr>valid = True, error = PNull\<rparr>
   \<and> validateForm stub_platform [''f1'' \<mapsto> Prim (PStr ''y'')] [conditional_field]
       = Inr \<lparr>form_valid = True, errors = Map.empty\<rparr>
   \<and> validateField stub_platform (Prim (PStr []))
         (rules_of (conditional_field\<lparr>fc_conditionalLogic := None\<rparr>))
         [''f1'' \<mapsto> Prim (PStr ''y'')]
       = Inr \<lparr>valid = False, error = PStr ''This field is required''\<rparr>
   \<and> validateField stub_platform (Prim PUndefined)
         (rules_of (conditional_field
            \<lparr>fc_conditionalLogic :=
               Some \<lparr>d_enabled = PBool True, d_field = PStr ''toString'',
                     d_operator = PStr ''empty'', d_value = Prim PUndefined\<rparr>\<rparr>))
         Map.empty
       = Inr \<lparr>valid = True, error = PNull\<rparr>"
proof -
  let ?vs = "[''f1'' \<mapsto> Prim (PStr ''y'')]"
  let ?t = "conditional_field
            \<lparr>fc_conditionalLogic :=
               Some \<lparr>d_enabled = PBool True, d_field = PStr ''toString'',
                     d_operator = PStr ''empty'', d_value = Prim PUndefined\<rparr>\<rparr>"
  have h: "hidden stub_platform ?vs (fc_conditionalLogic conditional_field)"
    by (simp add: hidden_def conditional_field_def evaluateCondition_def lookup_def)
  have h': "hidden stub_platform ?vs (r_conditionalLogic (rules_of conditional_field))"
    using h by simp
  have g: "hidden stub_platform Map.empty (fc_conditionalLogic ?t)"
    by (simp add: hidden_def evaluateCondition_def lookup_def stub_platform_def
        standard_object_prototype_def)
  have g': "hidden stub_platform Map.empty (r_conditionalLogic (rules_of ?t))"
    using g by simp
  have e: "validateForm stub_platform ?vs [] = Inr \<lparr>form_valid = True, errors = Map.empty\<rparr>"
    by (simp add: validateForm_def)
  have r: "validateField stub_platform (Prim (PStr []))
         (rules_of (conditional_field\<lparr>fc_conditionalLogic := None\<rparr>)) ?vs
       = Inr \<lparr>valid = False, error = PStr ''This field is required''\<rparr>"
    by (simp add: validateField_def rules_of_def conditional_field_def no_rule_set_def
        trim_is_empty_def fail_def prim_or_def msg_required_def)
  from hidden_field_skip [OF h' h, of "Prim (PStr [])" "[]" "[]"]
    hidden_field_skip [OF g' g, of "Prim PUndefined" "[]" "[]"] h e r
  show ?thesis by simp
qed

lemma match_classes_replicate:
  "match_classes (replicate n p) s = (length s = n \<and> list_all p s)"
  by (auto simp: match_classes_def list_all2_conv_all_nth list_all_length)

lemma pattern_mobile_stripped:
  "pattern_mobile (filter is_digit s) = (length (filter is_digit s) = 10)"
  by (auto simp: pattern_mobile_def match_classes_replicate list_all_iff)

lemma validateField_rules_none:
  "no_other_rule rules \<Longrightarrow> validateField_rules P v rules = Inr \<lparr>valid = True, error = PNull\<rparr>"
  by (simp add: validateField_rules_def no_other_rule_def pass_def test_value_def
      test_string_def test_pattern_def carry_on_def)

text \<open>
  Claim C7, as the code has it.  For a non-empty string value on a mobile-typed rule
  set that is visible (its conditional logic is absent or disabled, or its condition
  evaluates to true) and has no \<open>email\<close> flag, the validator strips the non-digits: when
  the stripped string is not exactly 10 digits the result is invalid with the built-in
  mobile-format message; when it is exactly 10 digits and no other rule is set, the
  result is valid.
\<close>

theorem mobile_check:
  assumes "r_type rules = PStr ''mobile''"
    and "visible P values (r_conditionalLogic rules)"
    and "\<not> isEmpty (Prim (PStr s))"
    and "\<not> truthy_prim (r_email rules)"
  shows "(length (filter is_digit s) \<noteq> 10 \<longrightarrow>
            validateField P (Prim (PStr s)) rules values
              = Inr \<lparr>valid = False, error = PStr msg_mobile\<rparr>)
       \<and> (length (filter is_digit s) = 10 \<and> no_other_rule rules \<longrightarrow>
            validateField P (Prim (PStr s)) rules values
              = Inr \<lparr>valid = True, error = PNull\<rparr>)"
proof -
  have h: "(if (case r_conditionalLogic rules of None \<Rightarrow> False
                | Some c \<Rightarrow> truthy_prim (d_enabled c))
            then evaluateCondition P (r_conditionalLogic rules) values
            else Inr True) = Inr True"
    using assms(2) by (simp add: visible_def)
  have ne: "\<not> trim_is_empty s" using assms(3) by simp
  have "validateField P (Prim (PStr s)) rules values =
      (if \<not> pattern_mobile (filter is_digit s) then fail (PStr msg_mobile)
       else if truthy_prim (r_url rules) \<and> \<not> url_test P s then fail (PStr msg_url)
       else validateField_rules P (Prim (PStr s)) rules)"
    unfolding validateField_def h using ne assms(1,4)
    by (simp add: test_value_def test_string_def carry_on_def reject_def fail_def)
  then show ?thesis
    by (simp add: pattern_mobile_stripped fail_def validateField_rules_none no_other_rule_def)
qed

text \<open>The scenario: \<^verbatim>\<open>{type: "mobile", required: true}\<close> with \<open>98-765-43210\<close> and with
  \<open>12345\<close>.\<close>

theorem mobile_check_witness:
  "validateField stub_platform (Prim (PStr ''98-765-43210'')) mobile_scenario_rules Map.empty
     = Inr \<lparr>valid = True, error = PNull\<rparr>
   \<and> validateField stub_platform (Prim (PStr ''12345'')) mobile_scenario_rules Map.empty
     = Inr \<lparr>valid = False, error = PStr ''Please enter a valid 10-digit mobile number''\<rparr>"
proof -
  have t: "r_type mobile_scenario_rules = PStr ''mobile''" by code_simp
  have h: "visible stub_platform Map.empty (r_conditionalLogic mobile_scenario_rules)"
    by (simp add: visible_def evaluateCondition_def mobile_scenario_rules_def no_rules_def)
  have e: "\<not> truthy_prim (r_email mobile_scenario_rules)" by code_simp
  have n: "no_other_rule mobile_scenario_rules" by code_simp
  have v1: "\<not> isEmpty (Prim (PStr ''98-765-43210''))" by code_simp
  have v2: "\<not> isEmpty (Prim (PStr ''12345''))" by code_simp
  have l1: "length (filter is_digit ''98-765-43210'') = 10" by code_simp
  have l2: "length (filter is_digit ''12345'') \<noteq> 10" by code_simp
  show ?thesis
    using mobile_check [OF t h v1 e] mobile_check [OF t h v2 e] n l1 l2
    by (simp add: msg_mobile_def)
qed

text \<open>
  The claim as stated fails on the mobile field the builder itself creates, whose
  defaults carry \<open>maxLength: 10\<close>: \<open>98-765-43210\<close> strips to exactly 10 digits, passes the
  mobile check, and is then rejected by the max-length check on its 12 characters.
\<close>

theorem mobile_check_counterexample:
  "length (filter is_digit ''98-765-43210'') = 10
   \<and> validateField stub_platform (Prim (PStr ''98-765-43210''))
        (rules_of (mobile_field_config ''m'')) [''m'' \<mapsto> Prim (PStr ''98-765-43210'')]
       = Inr \<lparr>valid = False, error = PStr ''Maximum 10 characters allowed''\<rparr>
   \<and> validateForm stub_platform [''m'' \<mapsto> Prim (PStr ''98-765-43210'')]
        [mobile_field_config ''m'']
       = Inr \<lparr>form_valid = False,
              errors = [''m'' \<mapsto> PStr ''Maximum 10 characters allowed'']\<rparr>"
proof -
  have l: "length (filter is_digit ''98-765-43210'') = 10" by code_simp
  have v: "validateField stub_platform (Prim (PStr ''98-765-43210''))
        (rules_of (mobile_field_config ''m'')) [''m'' \<mapsto> Prim (PStr ''98-765-43210'')]
       = Inr \<lparr>valid = False, error = PStr ''Maximum 10 characters allowed''\<rparr>"
    by code_simp
  have "lookup stub_platform [''m'' \<mapsto> Prim (PStr ''98-765-43210'')]
          (fc_id (mobile_field_config ''m''))
      = Prim (PStr ''98-765-43210'')"
    by (simp add: lookup_def mobile_field_config_def)
  with v have "validateForm stub_platform [''m'' \<mapsto> Prim (PStr ''98-765-43210'')]
        [mobile_field_config ''m'']
       = Inr \<lparr>form_valid = False,
              errors = [''m'' \<mapsto> PStr ''Maximum 10 characters allowed'']\<rparr>"
    by (simp add: validateForm_def mobile_field_config_def set_error_def)
  with l v show ?thesis by simp
qed

section \<open>Properties of the commands\<close>

lemma app_state_saveToHistory [simp]: "app_state (saveToHistory a) = app_state a"
  by (simp add: saveToHistory_def Let_def)

lemma app_state_setState [simp]:
  "app_state (setState a u sh) = merge_state (app_state a) u"
  by (simp add: setState_def Let_def)

lemma findIndex_find:
  "(findIndex fs i = None) = (find (\<lambda>f. strict_eq (f_id f) i) fs = None)"
  by (induction fs) auto

text \<open>\<open>deleteField\<close> finds a field to remove exactly when \<open>getField\<close> finds the id.\<close>

lemma deleteField_steps_getField:
  "(deleteField_steps sts i = None) = (getField_steps sts i = None)"
proof (induction sts)
  case Nil
  then show ?case by simp
next
  case (Cons st sts)
  show ?case
  proof (cases "findIndex (s_fields st) i")
    case None
    then have "find (\<lambda>f. strict_eq (f_id f) i) (s_fields st) = None"
      by (simp add: findIndex_find)
    with None Cons show ?thesis by simp
  next
    case (Some k)
    then have "find (\<lambda>f. strict_eq (f_id f) i) (s_fields st) \<noteq> None"
      by (simp add: findIndex_find [symmetric])
    with Some show ?thesis by auto
  qed
qed

text \<open>
  Claim C10.  In every state in which the field id exists, \<open>deleteField\<close> sets
  \<open>selectedElement\<close> to none, whatever was selected before.
\<close>

theorem deleteField_clears_selection:
  assumes "getField a fieldId \<noteq> None"
  shows "selectedElement (app_state (deleteField a fieldId)) = JNull"
proof -
  from assms obtain sts where "deleteField_steps (steps (app_state a)) fieldId = Some sts"
    by (auto simp: getField_def deleteField_steps_getField [symmetric])
  then show ?thesis
    by (simp add: deleteField_def merge_state_def no_updates_def)
qed

text \<open>Deleting \<open>f1\<close> while the header sentinel is selected, and while the other field
  \<open>f2\<close> is selected.\<close>

theorem deleteField_clears_selection_witness:
  "getField (two_steps (JStr ''header'')) (JStr ''f1'') \<noteq> None
   \<and> selectedElement (app_state (two_steps (JStr ''header''))) = JStr ''header''
   \<and> selectedElement (app_state (deleteField (two_steps (JStr ''header'')) (JStr ''f1''))) = JNull
   \<and> selectedElement (app_state (deleteField (two_steps (JStr ''f2'')) (JStr ''f1''))) = JNull"
proof -
  have g1: "getField (two_steps (JStr ''header'')) (JStr ''f1'') \<noteq> None" by code_simp
  have g2: "getField (two_steps (JStr ''f2'')) (JStr ''f1'') \<noteq> None" by code_simp
  have s: "selectedElement (app_state (two_steps (JStr ''header''))) = JStr ''header''"
    by code_simp
  from g1 s deleteField_clears_selection [OF g1] deleteField_clears_selection [OF g2]
  show ?thesis by simp
qed

text \<open>
  Claim C1.  \<open>deleteField\<close> on the selected field clears the selection, but
  \<open>deleteStep\<close> on the step that contains the selected field does not: with \<open>f1\<close>
  selected in the second of two steps, deleting that step leaves one step, no field
  \<open>f1\<close>, and \<open>selectedElement\<close> still \<open>f1\<close>.
\<close>

theorem deleteStep_leaves_dangling_selection:
  "getField (two_steps (JStr ''f1'')) (JStr ''f1'') = Some (addField_text (JStr ''f1''))
   \<and> selectedElement (app_state (two_steps (JStr ''f1''))) = JStr ''f1''
   \<and> length (steps (app_state (deleteStep (two_steps (JStr ''f1'')) 1))) = 1
   \<and> getField (deleteStep (two_steps (JStr ''f1'')) 1) (JStr ''f1'') = None
   \<and> selectedElement (app_state (deleteStep (two_steps (JStr ''f1'')) 1)) = JStr ''f1''
   \<and> selectedElement (app_state (deleteField (two_steps (JStr ''f1'')) (JStr ''f1''))) = JNull"
  by code_simp

lemma filter_index_snoc:
  "filter_index (xs @ [x]) k = filter_index xs k @ (if int (length xs) \<noteq> k then [x] else [])"
  by (simp add: filter_index_def)

lemma length_filter_index:
  "length (filter_index xs k)
     = (if 0 \<le> k \<and> k < int (length xs) then length xs - 1 else length xs)"
proof (induction xs rule: rev_induct)
  case Nil
  then show ?case by (simp add: filter_index_def)
next
  case (snoc x xs)
  then show ?case by (auto simp: filter_index_snoc)
qed

lemma deleteStep_single:
  "length (steps (app_state a)) \<le> 1 \<Longrightarrow> deleteStep a k = a"
  by (simp add: deleteStep_def)

lemma deleteStep_valid:
  assumes "valid_project (app_state a)"
  shows "valid_project (app_state (deleteStep a k))"
proof (cases "length (steps (app_state a)) \<le> 1")
  case True
  with assms show ?thesis by (simp add: deleteStep_def)
next
  case False
  with assms show ?thesis
    by (auto simp: deleteStep_def valid_project_def merge_state_def no_updates_def Let_def
        length_filter_index)
qed

lemma deleteSteps_valid:
  "valid_project (app_state a) \<Longrightarrow> valid_project (app_state (deleteSteps a ks))"
  by (induction ks arbitrary: a) (simp_all add: deleteStep_valid)

text \<open>
  Claim C2.  From a valid project, after any sequence of \<open>deleteStep\<close> calls the
  project has at least one step and \<open>currentStep\<close> is within \<open>[0, steps.length)\<close>;
  \<open>deleteStep\<close> on a project with one step returns the container unchanged; and after
  a single \<open>deleteStep\<close> the index \<open>currentStep\<close> is within range.
\<close>

theorem deleteStep_keeps_a_step:
  assumes "valid_project (app_state a)"
  shows "length (steps (app_state (deleteSteps a ks))) \<ge> 1
    \<and> 0 \<le> currentStep (app_state (deleteSteps a ks))
    \<and> currentStep (app_state (deleteSteps a ks)) < int (length (steps (app_state (deleteSteps a ks))))
    \<and> (length (steps (app_state a)) = 1 \<longrightarrow> deleteStep a k = a)
    \<and> 0 \<le> currentStep (app_state (deleteStep a k))
    \<and> currentStep (app_state (deleteStep a k)) < int (length (steps (app_state (deleteStep a k))))"
  using deleteSteps_valid [OF assms, of ks] deleteStep_valid [OF assms, of k]
  by (simp add: valid_project_def deleteStep_single)

text \<open>Two steps with the second active: deleting step 1, then step 0, then step 5
  leaves one step and \<open>currentStep = 0\<close>; on the one-step result a further
  \<open>deleteStep\<close> changes nothing.\<close>

theorem deleteStep_keeps_a_step_witness:
  "valid_project (app_state (two_steps JNull))
   \<and> length (steps (app_state (deleteSteps (two_steps JNull) [1, 0, 5]))) = 1
   \<and> currentStep (app_state (deleteSteps (two_steps JNull) [1, 0, 5])) = 0
   \<and> length (steps (app_state (deleteStep (two_steps JNull) 1))) = 1
   \<and> deleteStep (deleteStep (two_steps JNull) 1) 0 = deleteStep (two_steps JNull) 1"
proof -
  have v: "valid_project (app_state (two_steps JNull))" by code_simp
  have v1: "valid_project (app_state (deleteStep (two_steps JNull) 1))" by code_simp
  have l: "length (steps (app_state (deleteSteps (two_steps JNull) [1, 0, 5]))) \<le> 1"
    by code_simp
  have l1: "length (steps (app_state (deleteStep (two_steps JNull) 1))) = 1" by code_simp
  from deleteStep_keeps_a_step [OF v, of "[1, 0, 5]" 1]
    deleteStep_keeps_a_step [OF v1, of "[]" 0] v l l1
  show ?thesis by simp
qed



section \<open>Properties of the history\<close>

text \<open>In a reachable container \<open>saveToHistory\<close> keeps the snapshots up to the cursor,
  appends the live state, and either advances the cursor or drops the oldest snapshot.\<close>

lemma saveToHistory_window:
  assumes "history_ok a"
  shows "saveToHistory a =
     (let h2 = take (nat (historyIndex a + 1)) (history a) @ [app_state a]
      in if length h2 > maxHistorySize then a\<lparr>history := tl h2\<rparr>
         else a\<lparr>history := h2, historyIndex := historyIndex a + 1\<rparr>)"
proof -
  have "(if historyIndex a < int (length (history a)) - 1
         then slice0 (history a) (historyIndex a + 1) else history a)
        = take (nat (historyIndex a + 1)) (history a)"
    using assms by (auto simp: history_ok_def slice0_def)
  then show ?thesis by (simp add: saveToHistory_def)
qed

lemma saveToHistory_ok:
  assumes "history_ok a"
  shows "history_ok (saveToHistory a)
    \<and> history (saveToHistory a) \<noteq> []
    \<and> last (history (saveToHistory a)) = app_state a
    \<and> historyIndex (saveToHistory a) = int (length (history (saveToHistory a))) - 1"
proof -
  let ?t = "take (nat (historyIndex a + 1)) (history a)"
  have len: "length ?t = nat (historyIndex a + 1)"
    using assms by (auto simp: history_ok_def)
  show ?thesis
  proof (cases "length (?t @ [app_state a]) > maxHistorySize")
    case True
    then have ne: "?t \<noteq> []" by (auto simp: maxHistorySize_def)
    have s: "saveToHistory a = a\<lparr>history := tl ?t @ [app_state a]\<rparr>"
      using True ne by (simp add: saveToHistory_window [OF assms] Let_def)
    have l: "length (tl ?t) = nat (historyIndex a)"
      using len ne assms by (simp add: history_ok_def)
    have i: "0 \<le> historyIndex a" using ne assms by (auto simp: history_ok_def)
    have "history_ok (saveToHistory a)"
      using assms True l i by (auto simp: s history_ok_def maxHistorySize_def)
    moreover have "historyIndex (saveToHistory a) = int (length (history (saveToHistory a))) - 1"
      using l i by (auto simp: s)
    ultimately show ?thesis by (simp add: s)
  next
    case False
    have s: "saveToHistory a
        = a\<lparr>history := ?t @ [app_state a], historyIndex := historyIndex a + 1\<rparr>"
      using False by (simp add: saveToHistory_window [OF assms] Let_def)
    have "history_ok (saveToHistory a)"
      using assms False len by (auto simp: s history_ok_def)
    moreover have "historyIndex (saveToHistory a) = int (length (history (saveToHistory a))) - 1"
      using assms len by (auto simp: s history_ok_def)
    ultimately show ?thesis by (simp add: s)
  qed
qed

lemma history_ok_app_state [simp]: "history_ok (a\<lparr>app_state := s\<rparr>) = history_ok a"
  by (simp add: history_ok_def)

lemma setState_ok: "history_ok a \<Longrightarrow> history_ok (setState a u sh)"
  by (cases sh) (simp_all add: setState_def saveToHistory_ok)


lemma undo_ok:
  "history_ok a \<Longrightarrow> undo a =
     (if historyIndex a > 0
      then Some (True, a\<lparr>historyIndex := historyIndex a - 1,
                         app_state := history a ! nat (historyIndex a - 1)\<rparr>)
      else Some (False, a))"
  by (auto simp: undo_def history_at_def history_ok_def)


text \<open>Every operation keeps the history invariant, so it holds in every container
  reached from \<open>reset\<close>.\<close>

lemma undo_history_ok:
  "history_ok a \<Longrightarrow> undo a = Some (b, a') \<Longrightarrow> history_ok a'"
  by (auto simp: undo_ok history_ok_def split: if_splits)

lemma redo_history_ok:
  "history_ok a \<Longrightarrow> redo a = Some (b, a') \<Longrightarrow> history_ok a'"
  by (auto simp: redo_def history_at_def history_ok_def split: if_splits)

lemma deleteStep_history_ok: "history_ok a \<Longrightarrow> history_ok (deleteStep a k)"
  by (simp add: deleteStep_def Let_def setState_ok)

lemma deleteField_history_ok: "history_ok a \<Longrightarrow> history_ok (deleteField a i)"
  by (simp add: deleteField_def setState_ok split: option.splits)

lemma selectElement_history_ok: "history_ok a \<Longrightarrow> history_ok (selectElement a e)"
  by (simp add: selectElement_def setState_ok)

lemma drop_future_ok: "history_ok a \<Longrightarrow> history_ok (drop_future a)"
  by (auto simp: drop_future_def history_ok_def slice0_def)

lemma importJSON_history_ok: "history_ok a \<Longrightarrow> history_ok (snd (importJSON P a j))"
  using saveToHistory_ok [of "a\<lparr>app_state := s\<rparr>" for s]
  by (auto simp: importJSON_def drop_future_ok split: option.splits sum.splits json.splits)








section \<open>Properties of the import\<close>

lemma importJSON_parse_failure:
  "json_parse P s = None \<Longrightarrow> importJSON P a (NStr s) = (False, a)"
  by (simp add: importJSON_def)

text \<open>An error before \<^verbatim>\<open>this.state\<close> is assigned (while the new state is built, or in
  the clone of \<^verbatim>\<open>setState\<close>) leaves the container as it was.\<close>

lemma importJSON_early_failure:
  "(\<forall>s. j \<noteq> NStr s) \<Longrightarrow> j = NNull \<or> import_state deepClone P (app_state a) j = Inl e \<Longrightarrow>
   importJSON P a j = (False, a)"
  by (cases j) (auto simp: importJSON_def)

lemma import_state_steps:
  "import_state cl P st data = Inr s \<Longrightarrow> 1 \<le> length (steps s)"
  by (auto simp: import_state_def Let_def Suc_le_eq split: sum.splits if_splits)

text \<open>An import that returns true leaves a project with at least one step.\<close>

lemma importJSON_success_steps:
  "fst (importJSON P a j) \<Longrightarrow> 1 \<le> length (steps (app_state (snd (importJSON P a j))))"
  by (auto simp: importJSON_def dest: import_state_steps [of deepClone]
      split: option.splits sum.splits if_splits)

lemma import_state_null_proto_first:
  "import_state deepClone P st null_proto_document =
     Inr \<lparr>projectName = JStr ''Imported Project'',
          currentStep = 0,
          selectedElement = JNull,
          currentView = currentView st,
          header =
            \<lparr>h_image = \<lparr>hi_url = JObj [(''a'', JNum 1)], hi_height = JNum 300\<rparr>,
             h_title = h_title (header st),
             h_description = h_description (header st)\<rparr>,
          steps = [\<lparr>s_id = JStr ''step_0'', s_name = JStr ''Step 1'', s_fields = []\<rparr>],
          settings =
            \<lparr>webhookUrl = JStr [], submitButtonText = JStr ''Submit'',
             successMessage = JStr ''Thank you!'', showProgressBar = JBool True,
             theme = theme (settings st)\<rparr>\<rparr>"
  by (simp add: import_state_def null_proto_document_def leaf_or_def leaf_def present_def
      opt_prop_def import_title_def import_description_def array_or_empty_def)

lemma import_state_null_proto_second:
  "import_state (reclone P) P st null_proto_document = Inl TypeError"
  by (simp add: import_state_def null_proto_document_def leaf_or_def leaf_def present_def
      opt_prop_def own_props_def)

text \<open>
  Claim C8, refuted by the code.  The document
  \<^verbatim>\<open>{"header_image": {"__proto__": null, "a": 1}}\<close> is not imported: \<^verbatim>\<open>importJSON\<close>
  returns false.  The clone in \<^verbatim>\<open>setState\<close> gives the header image an object whose
  prototype is null, \<^verbatim>\<open>this.state\<close> is assigned, and the clone in \<^verbatim>\<open>saveToHistory\<close>
  throws on that object, which has no \<^verbatim>\<open>hasOwnProperty\<close>.  So for every platform and
  every container the import returns false with the project state replaced: the
  project is named \<open>Imported Project\<close>, the header image is the object of the document,
  the steps are the one default step, and the history got no snapshot of it.  After a
  reset, whose project is named \<open>Untitled Project\<close>, the state after the failed import
  differs from the state before.
\<close>

theorem importJSON_partial_apply:
  "fst (importJSON P a null_proto_document) = False
   \<and> projectName (app_state (snd (importJSON P a null_proto_document)))
       = JStr ''Imported Project''
   \<and> hi_url (h_image (header (app_state (snd (importJSON P a null_proto_document)))))
       = JObj [(''a'', JNum 1)]
   \<and> steps (app_state (snd (importJSON P a null_proto_document)))
       = [\<lparr>s_id = JStr ''step_0'', s_name = JStr ''Step 1'', s_fields = []\<rparr>]
   \<and> historyIndex (snd (importJSON P a null_proto_document)) = historyIndex a
   \<and> projectName (app_state reset) = JStr ''Untitled Project''
   \<and> steps (app_state reset)
       = [\<lparr>s_id = JStr ''step_0'', s_name = JStr ''Welcome'', s_fields = []\<rparr>]
   \<and> history (snd (importJSON P reset null_proto_document)) = history reset
   \<and> app_state (snd (importJSON P reset null_proto_document)) \<noteq> app_state reset"
proof -
  have r: "importJSON P a null_proto_document
      = (False, drop_future (a\<lparr>app_state :=
           \<lparr>projectName = JStr ''Imported Project'',
            currentStep = 0,
            selectedElement = JNull,
            currentView = currentView (app_state a),
            header =
              \<lparr>h_image = \<lparr>hi_url = JObj [(''a'', JNum 1)], hi_height = JNum 300\<rparr>,
               h_title = h_title (header (app_state a)),
               h_description = h_description (header (app_state a))\<rparr>,
            steps = [\<lparr>s_id = JStr ''step_0'', s_name = JStr ''Step 1'', s_fields = []\<rparr>],
            settings =
              \<lparr>webhookUrl = JStr [], submitButtonText = JStr ''Submit'',
               successMessage = JStr ''Thank you!'', showProgressBar = JBool True,
               theme = theme (settings (app_state a))\<rparr>\<rparr>\<rparr>))" for a
  proof -
    have d: "(case null_proto_document of NStr s \<Rightarrow> json_parse P s | _ \<Rightarrow> Some null_proto_document)
        = Some null_proto_document" "null_proto_document \<noteq> NNull"
      by (simp_all add: null_proto_document_def)
    show ?thesis
      unfolding importJSON_def d(1)
      by (simp add: d(2) import_state_null_proto_first import_state_null_proto_second)
  qed
  have s: "app_state reset = default_state"
    by (simp add: reset_def saveToHistory_def Let_def)
  have h: "history reset = [default_state]" "historyIndex reset = 0"
    by (simp_all add: reset_def saveToHistory_def Let_def maxHistorySize_def slice0_def)
  show ?thesis
    unfolding r s by (simp add: drop_future_def default_state_def h)
qed

end
